theory Spec2Isabelle
  imports Main "HOL-Library.Sublist" "HOL-Library.AList"
begin

section \<open>Python values and exceptions\<close>

text \<open>
  The Notion and AnkiConnect clients hand the program decoded JSON: Python dicts, lists,
  strings, integers, booleans and \<^verbatim>\<open>None\<close>. A dict is an association list in insertion
  order; a well-formed dict has distinct keys, and a lookup takes the binding of a key.
  Strings are \<^typ>\<open>string\<close>; JSON floats do not occur in the data this program reads and are
  left out.
\<close>

datatype json =
    JNull
  | JBool bool
  | JInt int
  | JStr string
  | JList "json list"
  | JDict "(string \<times> json) list"

text \<open>
  The exceptions the program can meet. \<open>Exception\<close> is a plain \<^verbatim>\<open>Exception(msg)\<close> as
  \<^verbatim>\<open>invoke\<close> raises it; \<open>ServiceError\<close> stands for whatever a client library raises on a
  failed call (HTTP, authentication, time-out). All of them derive from Python's
  \<^verbatim>\<open>Exception\<close>.
\<close>

datatype error =
    KeyError
  | IndexError
  | TypeError
  | AttributeError
  | ValueError
  | URLError
  | JSONDecodeError
  | Exception string
  | ServiceError string

definition ebind :: "error + 'a \<Rightarrow> ('a \<Rightarrow> error + 'b) \<Rightarrow> error + 'b" where
  "ebind m f = (case m of Inl e \<Rightarrow> Inl e | Inr x \<Rightarrow> f x)"

text \<open>A \<^verbatim>\<open>for\<close> loop whose body may raise: the first exception ends the loop.\<close>

fun efold :: "('s \<Rightarrow> 'a \<Rightarrow> error + 's) \<Rightarrow> 's \<Rightarrow> 'a list \<Rightarrow> error + 's" where
  "efold f s [] = Inr s"
| "efold f s (x # xs) = (case f s x of Inl e \<Rightarrow> Inl e | Inr s' \<Rightarrow> efold f s' xs)"

text \<open>
  A \<^verbatim>\<open>for\<close> loop whose body may \<^verbatim>\<open>return\<close>: the body yields \<open>Some r\<close> when it returns
  \<open>r\<close> and \<open>None\<close> when the loop goes on.
\<close>

fun efirst :: "('a \<Rightarrow> error + 'b option) \<Rightarrow> 'a list \<Rightarrow> error + 'b option" where
  "efirst f [] = Inr None"
| "efirst f (x # xs) =
     (case f x of
        Inl e \<Rightarrow> Inl e
      | Inr (Some r) \<Rightarrow> Inr (Some r)
      | Inr None \<Rightarrow> efirst f xs)"

text \<open>\<^verbatim>\<open>try: body  except <classes> as e: handler\<close>.\<close>

definition try_except ::
  "error + 'a \<Rightarrow> (error \<Rightarrow> bool) \<Rightarrow> (error \<Rightarrow> error + 'a) \<Rightarrow> error + 'a" where
  "try_except body catches handler =
     (case body of
        Inl e \<Rightarrow> if catches e then handler e else Inl e
      | Inr v \<Rightarrow> Inr v)"

text \<open>\<^verbatim>\<open>except Exception\<close>: every exception of the model.\<close>

definition any_exception :: "error \<Rightarrow> bool" where
  "any_exception e = True"

subsection \<open>The operations on values that the program uses\<close>

text \<open>Truthiness, as \<^verbatim>\<open>if x\<close> and \<^verbatim>\<open>x and y\<close> test it.\<close>

fun py_truthy :: "json \<Rightarrow> bool" where
  "py_truthy JNull = False"
| "py_truthy (JBool b) = b"
| "py_truthy (JInt i) = (i \<noteq> 0)"
| "py_truthy (JStr s) = (s \<noteq> [])"
| "py_truthy (JList xs) = (xs \<noteq> [])"
| "py_truthy (JDict kvs) = (kvs \<noteq> [])"

text \<open>\<^verbatim>\<open>x.get(k, d)\<close>: only a dict has the method.\<close>

fun py_get :: "json \<Rightarrow> string \<Rightarrow> json \<Rightarrow> error + json" where
  "py_get (JDict kvs) k d = Inr (case map_of kvs k of Some v \<Rightarrow> v | None \<Rightarrow> d)"
| "py_get _ k d = Inl AttributeError"

text \<open>
  \<^verbatim>\<open>x['k']\<close> with a string key: a dict raises KeyError on a missing key; a list or a string
  refuses a string index, and the other values are not subscriptable (TypeError).
\<close>

fun py_item :: "json \<Rightarrow> string \<Rightarrow> error + json" where
  "py_item (JDict kvs) k = (case map_of kvs k of Some v \<Rightarrow> Inr v | None \<Rightarrow> Inl KeyError)"
| "py_item _ k = Inl TypeError"

text \<open>\<^verbatim>\<open>x[0]\<close>.\<close>

fun py_item0 :: "json \<Rightarrow> error + json" where
  "py_item0 (JList []) = Inl IndexError"
| "py_item0 (JList (x # xs)) = Inr x"
| "py_item0 (JStr []) = Inl IndexError"
| "py_item0 (JStr (c # cs)) = Inr (JStr [c])"
| "py_item0 (JDict kvs) = Inl KeyError"
| "py_item0 _ = Inl TypeError"

text \<open>
  \<^verbatim>\<open>'k' in x\<close> for a string \<open>k\<close>: a key of a dict, an element of a list, a substring of
  a string; the other values are not iterable (TypeError).
\<close>

fun py_contains :: "string \<Rightarrow> json \<Rightarrow> error + bool" where
  "py_contains k (JDict kvs) = Inr (map_of kvs k \<noteq> None)"
| "py_contains k (JList xs) = Inr (List.member xs (JStr k))"
| "py_contains k (JStr s) = Inr (sublist k s)"
| "py_contains k _ = Inl TypeError"

text \<open>\<^verbatim>\<open>for e in x\<close>: the elements of a list, the keys of a dict, the characters of a string.\<close>

fun py_iter :: "json \<Rightarrow> error + json list" where
  "py_iter (JList xs) = Inr xs"
| "py_iter (JDict kvs) = Inr (map (\<lambda>kv. JStr (fst kv)) kvs)"
| "py_iter (JStr s) = Inr (map (\<lambda>c. JStr [c]) s)"
| "py_iter _ = Inl TypeError"

text \<open>\<^verbatim>\<open>s += v\<close> for a string \<open>s\<close>: only a string can be appended.\<close>

fun py_str_add :: "string \<Rightarrow> json \<Rightarrow> error + string" where
  "py_str_add s (JStr t) = Inr (s @ t)"
| "py_str_add s _ = Inl TypeError"

text \<open>
  \<^verbatim>\<open>str.strip()\<close> removes the white space at both ends. The characters are those of
  \<^verbatim>\<open>str.isspace\<close> among the code points below 256.
\<close>

definition py_isspace :: "char \<Rightarrow> bool" where
  "py_isspace c =
     List.member
       [CHR 0x09, CHR 0x0A, CHR 0x0B, CHR 0x0C, CHR 0x0D, CHR 0x1C, CHR 0x1D, CHR 0x1E,
        CHR 0x1F, CHR 0x20, CHR 0x85, CHR 0xA0] c"

definition strip :: "string \<Rightarrow> string" where
  "strip s = rev (dropWhile py_isspace (rev (dropWhile py_isspace s)))"

text \<open>\<^verbatim>\<open>v.strip()\<close> on a value: only a string has the method.\<close>

fun py_strip :: "json \<Rightarrow> error + string" where
  "py_strip (JStr s) = Inr (strip s)"
| "py_strip _ = Inl AttributeError"

text \<open>\<^verbatim>\<open>str(n)\<close> for a natural number: its decimal digits.\<close>

definition digit :: "nat \<Rightarrow> char" where
  "digit d = ''0123456789'' ! d"

function str_of_nat :: "nat \<Rightarrow> string" where
  "str_of_nat n = (if n < 10 then [digit n] else str_of_nat (n div 10) @ [digit (n mod 10)])"
  by pat_completeness auto
termination
  by (relation "measure id") auto

declare str_of_nat.simps [simp del]

section \<open>notion.py\<close>

text \<open>
  The Notion client is a parameter: \<open>children\<close> is \<^verbatim>\<open>notion.blocks.children.list\<close>, from a
  block id to the decoded response or the exception the call raises; \<open>search\<close> is
  \<^verbatim>\<open>notion.search\<close> filtered to pages, from the query string. Logging is not modelled.
\<close>

type_synonym children_api = "json \<Rightarrow> error + json"
type_synonym search_api = "string \<Rightarrow> error + json"

subsection \<open>get_toggle_answer\<close>

text \<open>
  The inner loop of each branch:
  \<^verbatim>\<open>for excerpt in rich_text: if 'text' in excerpt: full += excerpt['text']['content']\<close>.
\<close>

definition add_excerpt :: "string \<Rightarrow> json \<Rightarrow> error + string" where
  "add_excerpt full excerpt =
     ebind (py_contains ''text'' excerpt) (\<lambda>has_text.
       if has_text then
         ebind (py_item excerpt ''text'') (\<lambda>t.
         ebind (py_item t ''content'') (\<lambda>c.
         py_str_add full c))
       else Inr full)"

text \<open>\<^verbatim>\<open>block[kind]['rich_text']\<close>, then the inner loop started from \<open>init\<close>.\<close>

definition render_runs :: "json \<Rightarrow> string \<Rightarrow> string \<Rightarrow> error + string" where
  "render_runs block kind init =
     ebind (py_item block kind) (\<lambda>d.
     ebind (py_item d ''rich_text'') (\<lambda>rich_text.
     ebind (py_iter rich_text) (\<lambda>excerpts.
     efold add_excerpt init excerpts)))"

text \<open>
  The loop state of \<^verbatim>\<open>get_toggle_answer\<close>: \<^verbatim>\<open>answer\<close>, \<^verbatim>\<open>number\<close> and \<^verbatim>\<open>previous_type\<close>
  (\<open>None\<close> is Python's \<^verbatim>\<open>None\<close>).
\<close>

record toggle_state =
  answer :: string
  number :: nat
  previous_type :: "json option"

text \<open>
  One iteration of \<^verbatim>\<open>for block in toggle_content\<close>. \<^verbatim>\<open>block['type']\<close> is read once here;
  the source reads it again in each \<^verbatim>\<open>elif\<close> and in the last line, with the same result.
\<close>

definition toggle_step :: "toggle_state \<Rightarrow> json \<Rightarrow> error + toggle_state" where
  "toggle_step st block =
     ebind (py_item block ''type'') (\<lambda>ty.
       if ty = JStr ''paragraph'' then
         ebind (render_runs block ''paragraph'' []) (\<lambda>full_text.
         Inr (st\<lparr>answer := answer st @ full_text @ ''\<newline>'', previous_type := Some ty\<rparr>))
       else if ty = JStr ''bulleted_list_item'' then
         ebind (render_runs block ''bulleted_list_item'' ''- '') (\<lambda>full_bullet.
         Inr (st\<lparr>answer := answer st @ full_bullet @ ''\<newline>'', previous_type := Some ty\<rparr>))
       else if ty = JStr ''numbered_list_item'' then
         (let n = (if previous_type st = Some (JStr ''numbered_list_item'')
                   then number st + 1 else 1)
          in ebind (render_runs block ''numbered_list_item'' (str_of_nat n @ ''. ''))
               (\<lambda>full_item.
                 Inr (st\<lparr>answer := answer st @ full_item @ ''\<newline>'', number := n,
                         previous_type := Some ty\<rparr>)))
       else Inr (st\<lparr>previous_type := Some ty\<rparr>))"

definition toggle_init :: toggle_state where
  "toggle_init = \<lparr>answer = [], number = 1, previous_type = None\<rparr>"

definition toggle_loop :: "toggle_state \<Rightarrow> json list \<Rightarrow> error + toggle_state" where
  "toggle_loop st blocks = efold toggle_step st blocks"

definition get_toggle_answer :: "children_api \<Rightarrow> json \<Rightarrow> error + string" where
  "get_toggle_answer children block_id =
     ebind (children block_id) (\<lambda>toggle_children.
     ebind (py_item toggle_children ''results'') (\<lambda>toggle_content.
     ebind (py_iter toggle_content) (\<lambda>blocks.
     ebind (toggle_loop toggle_init blocks) (\<lambda>st.
     Inr (answer st)))))"

subsection \<open>analyze_blocks\<close>

text \<open>The exceptions the loop body of \<^verbatim>\<open>analyze_blocks\<close> catches.\<close>

definition block_errors :: "error \<Rightarrow> bool" where
  "block_errors e = (e = KeyError \<or> e = IndexError \<or> e = TypeError)"

type_synonym walk_state = "string set \<times> (string \<times> string) list"

text \<open>
  \<^verbatim>\<open>rich_text and rich_text[0].get('text')\<close>: the value of the \<^verbatim>\<open>and\<close> is tested for truth.
\<close>

definition first_run_has_text :: "json \<Rightarrow> error + bool" where
  "first_run_has_text rich_text =
     (if py_truthy rich_text then
        ebind (py_item0 rich_text) (\<lambda>r.
        ebind (py_get r ''text'' JNull) (\<lambda>t.
        Inr (py_truthy t)))
      else Inr False)"

text \<open>\<^verbatim>\<open>rich_text[0]['text']['content']\<close>.\<close>

definition first_run_content :: "json \<Rightarrow> error + json" where
  "first_run_content rich_text =
     ebind (py_item0 rich_text) (\<lambda>r.
     ebind (py_item r ''text'') (\<lambda>t.
     py_item t ''content''))"

text \<open>The body of the \<^verbatim>\<open>try\<close> for a block whose type has passed \<^verbatim>\<open>"heading" in block_type\<close>.\<close>

definition heading_branch :: "walk_state \<Rightarrow> json \<Rightarrow> string \<Rightarrow> error + walk_state" where
  "heading_branch st block block_type =
     ebind (py_get block block_type (JDict [])) (\<lambda>heading_data.
     ebind (py_get heading_data ''rich_text'' (JList [])) (\<lambda>rich_text.
     ebind (first_run_has_text rich_text) (\<lambda>ok.
       if ok then
         ebind (first_run_content rich_text) (\<lambda>heading.
         ebind (py_strip heading) (\<lambda>h.
           if h \<noteq> [] then Inr (insert h (fst st), snd st) else Inr st))
       else Inr st)))"

definition toggle_branch :: "children_api \<Rightarrow> walk_state \<Rightarrow> json \<Rightarrow> error + walk_state" where
  "toggle_branch children st block =
     ebind (py_get block ''toggle'' (JDict [])) (\<lambda>toggle_data.
     ebind (py_get toggle_data ''rich_text'' (JList [])) (\<lambda>rich_text.
     ebind (first_run_has_text rich_text) (\<lambda>ok.
       if ok then
         ebind (first_run_content rich_text) (\<lambda>question.
         ebind (py_strip question) (\<lambda>q.
           if q \<noteq> [] then
             ebind (py_item block ''id'') (\<lambda>block_id.
             ebind (get_toggle_answer children block_id) (\<lambda>ans.
               if strip ans \<noteq> [] then Inr (fst st, AList.update q (strip ans) (snd st))
               else Inr st))
           else Inr st))
       else Inr st)))"

text \<open>
  The \<^verbatim>\<open>if\<close>/\<^verbatim>\<open>elif\<close> inside the \<^verbatim>\<open>try\<close>. \<^verbatim>\<open>block.get(block_type, {})\<close> needs a hashable
  key: a list or a dict as \<open>block_type\<close> raises TypeError there.
\<close>

definition block_body :: "children_api \<Rightarrow> walk_state \<Rightarrow> json \<Rightarrow> json \<Rightarrow> error + walk_state" where
  "block_body children st block block_type =
     ebind (py_contains ''heading'' block_type) (\<lambda>is_heading.
       if is_heading then
         (case block_type of
            JStr ty \<Rightarrow> heading_branch st block ty
          | _ \<Rightarrow> Inl TypeError)
       else if block_type = JStr ''toggle'' then toggle_branch children st block
       else Inr st)"

text \<open>
  One iteration of \<^verbatim>\<open>for block in blocks\<close>: \<^verbatim>\<open>block.get('type', '')\<close> stands before the
  \<^verbatim>\<open>try\<close>; the handler goes on to the next block with the state as it was.
\<close>

definition analyze_block :: "children_api \<Rightarrow> walk_state \<Rightarrow> json \<Rightarrow> error + walk_state" where
  "analyze_block children st block =
     ebind (py_get block ''type'' (JStr [])) (\<lambda>block_type.
     try_except (block_body children st block block_type) block_errors (\<lambda>e. Inr st))"

definition analyze_blocks :: "children_api \<Rightarrow> json \<Rightarrow> error + walk_state" where
  "analyze_blocks children blocks =
     ebind (py_iter blocks) (\<lambda>bs. efold (analyze_block children) ({}, []) bs)"

subsection \<open>fetch_page_content\<close>

text \<open>The result is the pair, or \<open>None\<close> for Python's \<^verbatim>\<open>None\<close>.\<close>

definition fetch_page_content :: "children_api \<Rightarrow> string \<Rightarrow> error + walk_state option" where
  "fetch_page_content children page_id =
     ebind (children (JStr page_id)) (\<lambda>response.
     ebind (py_item response ''results'') (\<lambda>blocks.
     ebind (analyze_blocks children blocks) (\<lambda>r.
       if fst r \<noteq> {} \<and> snd r \<noteq> [] then Inr (Some r) else Inr None)))"

subsection \<open>search_notion_page\<close>

text \<open>\<^verbatim>\<open>page['properties'][name]['title'][0]['text']['content']\<close>.\<close>

definition title_content :: "json \<Rightarrow> string \<Rightarrow> error + json" where
  "title_content page name =
     ebind (py_item page ''properties'') (\<lambda>props.
     ebind (py_item props name) (\<lambda>p.
     ebind (py_item p ''title'') (\<lambda>runs.
     ebind (py_item0 runs) (\<lambda>r.
     ebind (py_item r ''text'') (\<lambda>t.
     py_item t ''content'')))))"

text \<open>\<^verbatim>\<open>{'result': "Found", 'page_id': page['id'], 'link': page['url']}\<close>.\<close>

definition found :: "json \<Rightarrow> error + json" where
  "found page =
     ebind (py_item page ''id'') (\<lambda>page_id.
     ebind (py_item page ''url'') (\<lambda>url.
     Inr (JDict [(''result'', JStr ''Found''), (''page_id'', page_id), (''link'', url)])))"

text \<open>The loop body: \<open>Some r\<close> when it returns \<open>r\<close>, \<open>None\<close> when the loop goes on.\<close>

definition page_match :: "string \<Rightarrow> json \<Rightarrow> error + json option" where
  "page_match page_title page =
     ebind (py_item page ''properties'') (\<lambda>props.
     ebind (py_contains ''title'' props) (\<lambda>has_title.
       if has_title then
         ebind (title_content page ''title'') (\<lambda>c.
           if c = JStr page_title then ebind (found page) (\<lambda>r. Inr (Some r)) else Inr None)
       else
         ebind (py_contains ''Name'' props) (\<lambda>has_name.
           if has_name then
             ebind (title_content page ''Name'') (\<lambda>c.
               if c = JStr page_title then ebind (found page) (\<lambda>r. Inr (Some r))
               else Inr None)
           else Inr None)))"

definition search_notion_page :: "search_api \<Rightarrow> string \<Rightarrow> error + json option" where
  "search_notion_page search page_title =
     ebind (search page_title) (\<lambda>pages.
       if py_truthy pages then
         ebind (py_item pages ''results'') (\<lambda>results.
         ebind (py_iter results) (\<lambda>ps.
         efirst (page_match page_title) ps))
       else Inr None)"

subsection \<open>search_notion_database\<close>

text \<open>
  The sibling of \<^verbatim>\<open>search_notion_page\<close> for databases, whose title is a list of runs on
  the object itself. It tests \<^verbatim>\<open>db['title']\<close> for truth before it takes the first run, and
  reads the run's text through \<^verbatim>\<open>.get('text')\<close>, with the empty string for a run without
  one. Its handler logs and raises again.
\<close>

definition found_database :: "json \<Rightarrow> error + json" where
  "found_database db =
     ebind (py_item db ''id'') (\<lambda>database_id.
     ebind (py_item db ''url'') (\<lambda>url.
     Inr (JDict [(''result'', JStr ''Found''), (''database_id'', database_id), (''link'', url)])))"

definition database_match :: "string \<Rightarrow> json \<Rightarrow> error + json option" where
  "database_match database_name db =
     ebind (py_contains ''title'' db) (\<lambda>has_title.
       if has_title then
         ebind (py_item db ''title'') (\<lambda>title.
           if py_truthy title then
             ebind (py_item0 title) (\<lambda>r.
             ebind (py_get r ''text'' JNull) (\<lambda>t.
             ebind (if py_truthy t then
                      ebind (py_item0 title) (\<lambda>r'.
                      ebind (py_item r' ''text'') (\<lambda>t'.
                      py_item t' ''content''))
                    else Inr (JStr [])) (\<lambda>db_title.
               if db_title = JStr database_name
               then ebind (found_database db) (\<lambda>r. Inr (Some r))
               else Inr None)))
           else Inr None)
       else Inr None)"

definition search_notion_database :: "search_api \<Rightarrow> string \<Rightarrow> error + json option" where
  "search_notion_database search database_name =
     try_except
       (ebind (search database_name) (\<lambda>databases.
          if py_truthy databases then
            ebind (py_get databases ''results'' JNull) (\<lambda>results.
              if py_truthy results then
                ebind (py_item databases ''results'') (\<lambda>results'.
                ebind (py_iter results') (\<lambda>dbs.
                efirst (database_match database_name) dbs))
              else Inr None)
          else Inr None))
       any_exception (\<lambda>e. Inl e)"

section \<open>anki.py\<close>

text \<open>
  The HTTP end point is a parameter: \<open>transport calls payload\<close> is what
  \<^verbatim>\<open>json.load(urllib.request.urlopen(req))\<close> gives for the request \<open>payload\<close> after the
  requests \<open>calls\<close> made before it: the decoded response, or the exception raised. Every
  function that may call it takes the list of requests made so far and returns it
  extended, so that a call that is not made leaves the list as it was.
\<close>

type_synonym transport = "json list \<Rightarrow> json \<Rightarrow> error + json"
type_synonym 'a anki = "json list \<Rightarrow> (error + 'a) \<times> json list"

definition areturn :: "'a \<Rightarrow> 'a anki" where
  "areturn v calls = (Inr v, calls)"

definition araise :: "error \<Rightarrow> 'a anki" where
  "araise e calls = (Inl e, calls)"

definition abind :: "'a anki \<Rightarrow> ('a \<Rightarrow> 'b anki) \<Rightarrow> 'b anki" where
  "abind m f calls =
     (case m calls of
        (Inl e, calls') \<Rightarrow> (Inl e, calls')
      | (Inr v, calls') \<Rightarrow> f v calls')"

definition atry :: "'a anki \<Rightarrow> (error \<Rightarrow> bool) \<Rightarrow> (error \<Rightarrow> 'a anki) \<Rightarrow> 'a anki" where
  "atry body catches handler calls =
     (case body calls of
        (Inl e, calls') \<Rightarrow> if catches e then handler e calls' else (Inl e, calls')
      | (Inr v, calls') \<Rightarrow> (Inr v, calls'))"

definition request :: "string \<Rightarrow> (string \<times> json) list \<Rightarrow> json" where
  "request action params =
     JDict [(''action'', JStr action), (''params'', JDict params), (''version'', JInt 6)]"

text \<open>\<^verbatim>\<open>len(d)\<close> of a dict: the number of its keys.\<close>

definition py_len :: "(string \<times> json) list \<Rightarrow> nat" where
  "py_len kvs = length (remdups (map fst kvs))"

text \<open>
  The checks of \<^verbatim>\<open>invoke\<close> on the decoded response. The messages are the source's, without
  the values it formats into them.
\<close>

definition check_response :: "json \<Rightarrow> error + json" where
  "check_response response =
     (case response of
        JDict kvs \<Rightarrow>
          if py_len kvs \<noteq> 2 then Inl (Exception ''Invalid response structure'')
          else (case map_of kvs ''error'' of
             None \<Rightarrow> Inl (Exception ''Response is missing required error field'')
           | Some err \<Rightarrow>
              (case map_of kvs ''result'' of
                 None \<Rightarrow> Inl (Exception ''Response is missing required result field'')
               | Some result \<Rightarrow>
                   if err \<noteq> JNull then Inl (Exception ''AnkiConnect error'')
                   else Inr result))
      | _ \<Rightarrow> Inl (Exception ''Invalid response structure''))"

text \<open>The three handlers of \<^verbatim>\<open>invoke\<close>, in the source's order.\<close>

definition reraise :: "error \<Rightarrow> error" where
  "reraise e =
     (if e = URLError then
        Exception ''Cannot connect to Anki. Please ensure Anki is running with AnkiConnect installed.''
      else if e = JSONDecodeError then Exception ''Invalid response from AnkiConnect''
      else e)"

definition invoke :: "transport \<Rightarrow> string \<Rightarrow> (string \<times> json) list \<Rightarrow> json anki" where
  "invoke tr action params calls =
     (let request_data = request action params
      in (case ebind (tr calls request_data) check_response of
            Inl e \<Rightarrow> Inl (reraise e)
          | Inr result \<Rightarrow> Inr result,
          calls @ [request_data]))"

subsection \<open>add_notes\<close>

text \<open>One iteration of the validation loop: the three \<^verbatim>\<open>continue\<close>s, then the append.\<close>

definition validate_note :: "json list \<Rightarrow> json \<Rightarrow> json list" where
  "validate_note valid_notes note =
     (case note of
        JDict kvs \<Rightarrow>
          if \<not> list_all (\<lambda>field. map_of kvs field \<noteq> None) [''deckName'', ''modelName'', ''fields'']
          then valid_notes
          else (case map_of kvs ''fields'' of
                  Some (JDict fs) \<Rightarrow>
                    if map_of fs ''Front'' = None \<or> map_of fs ''Back'' = None then valid_notes
                    else valid_notes @ [note]
                | _ \<Rightarrow> valid_notes)
      | _ \<Rightarrow> valid_notes)"

definition add_notes :: "transport \<Rightarrow> json list \<Rightarrow> json anki" where
  "add_notes tr notes =
     (if notes = [] then areturn (JList [])
      else
        (let valid_notes = foldl validate_note [] notes
         in if valid_notes = [] then areturn (JList [])
            else invoke tr ''addNotes'' [(''notes'', JList valid_notes)]))"

subsection \<open>create_deck and sync_decks\<close>

definition create_deck :: "transport \<Rightarrow> string \<Rightarrow> json anki" where
  "create_deck tr deck_name =
     (if deck_name = [] \<or> strip deck_name = [] then araise ValueError
      else atry (invoke tr ''createDeck'' [(''deck'', JStr (strip deck_name))])
             any_exception (\<lambda>e. araise e))"

definition sync_decks :: "transport \<Rightarrow> unit anki" where
  "sync_decks tr =
     atry (abind (invoke tr ''sync'' []) (\<lambda>r. areturn ()))
       any_exception (\<lambda>e. areturn ())"

section \<open>server.py\<close>

text \<open>
  A tool returns a dict: an association list of its keys, in the source's order. A message
  that formats \<^verbatim>\<open>str(e)\<close> is kept as the text before it and the exception (\<open>FError\<close>), one
  that formats another envelope's message as the text before it and that message
  (\<open>FWrap\<close>). The topics of the success envelope are \<^verbatim>\<open>list(topics)\<close>, a list in no fixed
  order: kept as the set. The log messages sent through \<^verbatim>\<open>ctx\<close> and \<^verbatim>\<open>logger\<close> are not
  modelled.
\<close>

datatype field =
    FStr string
  | FJson json
  | FTopics "string set"
  | FContent "(string \<times> string) list"
  | FCards "json list"
  | FError string error
  | FWrap string field

type_synonym envelope = "(string \<times> field) list"

text \<open>
  \<^verbatim>\<open>not s or not s.strip()\<close> on a string argument; \<open>None\<close> is Python's \<^verbatim>\<open>None\<close>, an argument
  that is missing.
\<close>

definition blank :: "string option \<Rightarrow> bool" where
  "blank a = (case a of None \<Rightarrow> True | Some s \<Rightarrow> s = [] \<or> strip s = [])"

definition quoted :: "string \<Rightarrow> string" where
  "quoted s = [CHR 0x27] @ s @ [CHR 0x27]"

subsection \<open>search_page\<close>

definition search_page :: "search_api \<Rightarrow> string option \<Rightarrow> error + envelope" where
  "search_page search page_name =
     (if blank page_name then
        Inr [(''status'', FStr ''error''), (''message'', FStr ''Page name cannot be empty.'')]
      else
        (let name = the page_name in
         try_except
           (ebind (search_notion_page search (strip name)) (\<lambda>page.
              case page of
                Some r \<Rightarrow>
                  if py_truthy r then
                    Inr [(''status'', FStr ''success''), (''page_name'', FStr name),
                         (''result'', FJson r)]
                  else
                    Inr [(''status'', FStr ''error''), (''page_name'', FStr name),
                         (''message'', FStr ''Page not found.'')]
              | None \<Rightarrow>
                  Inr [(''status'', FStr ''error''), (''page_name'', FStr name),
                       (''message'', FStr ''Page not found.'')]))
           any_exception
           (\<lambda>e. Inr [(''status'', FStr ''error''), (''page_name'', FStr name),
                      (''message'', FError ''Search failed: '' e)])))"

subsection \<open>extract_page_content\<close>

text \<open>
  \<^verbatim>\<open>topics, content = await fetch_page_content(...)\<close>: unpacking \<^verbatim>\<open>None\<close> raises TypeError,
  inside the \<^verbatim>\<open>try\<close>.
\<close>

definition unpack_pair :: "walk_state option \<Rightarrow> error + walk_state" where
  "unpack_pair r = (case r of None \<Rightarrow> Inl TypeError | Some p \<Rightarrow> Inr p)"

definition extract_page_content :: "children_api \<Rightarrow> string option \<Rightarrow> error + envelope" where
  "extract_page_content children page_id =
     (if blank page_id then
        Inr [(''status'', FStr ''error''), (''topics'', FTopics {}), (''content'', FContent []),
             (''message'', FStr ''Page ID cannot be empty.'')]
      else
        (let pid = the page_id in
         try_except
           (ebind (fetch_page_content children (strip pid)) (\<lambda>r.
            ebind (unpack_pair r) (\<lambda>p.
              if fst p = {} \<and> snd p = [] then
                Inr [(''status'', FStr ''error''), (''topics'', FTopics {}),
                     (''content'', FContent []),
                     (''message'', FStr ''No extractable content found in the page.'')]
              else
                Inr [(''status'', FStr ''success''), (''topics'', FTopics (fst p)),
                     (''content'', FContent (snd p)),
                     (''message'', FStr (''Extracted topics and content from page ID: '' @ pid))])))
           any_exception
           (\<lambda>e. Inr [(''status'', FStr ''error''), (''topics'', FTopics {}),
                      (''content'', FContent []),
                      (''message'', FError ''Content extraction failed: '' e)])))"

subsection \<open>post_flashcards\<close>

definition post_flashcards :: "transport \<Rightarrow> string \<Rightarrow> json list \<Rightarrow> envelope anki" where
  "post_flashcards tr page_name cards =
     atry
       (abind (create_deck tr page_name) (\<lambda>d.
        abind (add_notes tr cards) (\<lambda>result.
        abind (sync_decks tr) (\<lambda>u.
        areturn
          [(''status'', FStr ''added''), (''result'', FJson result),
           (''message'',
            FStr (''Added '' @ str_of_nat (length cards) @ '' flashcards to Anki deck ''
                  @ quoted page_name))]))))
       any_exception
       (\<lambda>e. areturn
          [(''status'', FStr ''error''), (''result'', FJson (JList [])),
           (''message'', FError ''Failed to add flashcards: '' e)])"

subsection \<open>generate_flashcards\<close>

text \<open>
  \<^verbatim>\<open>generate_flashcards_gpt\<close> is imported from a module that is not among the sources: it
  is a parameter, from the page name, the topics and the content to the list of cards or
  the exception it raises.
\<close>

type_synonym synthesizer =
  "string \<Rightarrow> string list \<Rightarrow> (string \<times> string) list \<Rightarrow> error + json list"

definition failed :: "json list \<Rightarrow> field \<Rightarrow> envelope" where
  "failed cards msg = [(''status'', FStr ''failed''), (''cards'', FCards cards), (''message'', msg)]"

definition generate_flashcards ::
  "synthesizer \<Rightarrow> transport \<Rightarrow> string option \<Rightarrow> string list \<Rightarrow> (string \<times> string) list
     \<Rightarrow> envelope anki" where
  "generate_flashcards gpt tr page_name topics content =
     (if blank page_name then areturn (failed [] (FStr ''Page name cannot be empty''))
      else if topics = [] \<and> content = [] then
        areturn (failed [] (FStr ''No topics or content provided''))
      else if content = [] then
        areturn (failed [] (FStr ''No question-answer content found to generate flashcards''))
      else
        (let name = the page_name in
         atry
           (abind (\<lambda>calls. (gpt name topics content, calls)) (\<lambda>llm_cards.
              if llm_cards = [] then
                areturn (failed [] (FStr ''No flashcards were generated''))
              else
                abind (post_flashcards tr name llm_cards) (\<lambda>publish_result.
                  if map_of publish_result ''status'' = Some (FStr ''added'') then
                    areturn
                      [(''status'', FStr ''created''), (''cards'', FCards llm_cards),
                       (''message'',
                        FStr (''Created '' @ str_of_nat (length llm_cards)
                              @ '' flashcards for '' @ quoted name @ '' in Anki''))]
                  else
                    (case map_of publish_result ''message'' of
                       Some m \<Rightarrow>
                         areturn
                           [(''status'', FStr ''failed''), (''cards'', FCards llm_cards),
                            (''message'',
                             FWrap ''Generated cards but failed to add to Anki: '' m)]
                     | None \<Rightarrow> araise KeyError))))
           any_exception
           (\<lambda>e. areturn (failed [] (FError ''Flashcard generation failed: '' e)))))"

section \<open>Blocks as the Notion API returns them\<close>

text \<open>
  The concrete inputs of the properties below. A rich-text run of type \<^verbatim>\<open>text\<close>, and a block
  of a kind that carries rich text (paragraph, list items, toggle, headings): the block
  object with its id, its type and, under the key named by the type, its rich text.
\<close>

definition text_run :: "string \<Rightarrow> json" where
  "text_run s =
     JDict [(''type'', JStr ''text''), (''text'', JDict [(''content'', JStr s), (''link'', JNull)]),
            (''plain_text'', JStr s)]"

definition rich_block :: "string \<Rightarrow> string \<Rightarrow> string list \<Rightarrow> json" where
  "rich_block block_id kind runs =
     JDict [(''object'', JStr ''block''), (''id'', JStr block_id), (''type'', JStr kind),
            (kind, JDict [(''rich_text'', JList (map text_run runs))])]"

text \<open>
  A workspace: the page \<^verbatim>\<open>p1\<close> whose only block is the toggle \<^verbatim>\<open>t1\<close> with the question
  "What is X?"; the page \<^verbatim>\<open>p2\<close> with a heading "Topic1" before that toggle; the toggle's
  only child is a paragraph "X is Y.". The children of another toggle, \<^verbatim>\<open>t2\<close>, are one
  paragraph holding a space. Any other id is unknown to the service.
\<close>

definition workspace :: children_api where
  "workspace block_id =
     (if block_id = JStr ''p1'' then
        Inr (JDict [(''object'', JStr ''list''),
                    (''results'', JList [rich_block ''t1'' ''toggle'' [''What is X?'']])])
      else if block_id = JStr ''p2'' then
        Inr (JDict [(''object'', JStr ''list''),
                    (''results'', JList [rich_block ''h1'' ''heading_1'' [''Topic1''],
                                         rich_block ''t1'' ''toggle'' [''What is X?'']])])
      else if block_id = JStr ''t1'' then
        Inr (JDict [(''object'', JStr ''list''),
                    (''results'', JList [rich_block ''c1'' ''paragraph'' [''X is Y.'']])])
      else if block_id = JStr ''t2'' then
        Inr (JDict [(''object'', JStr ''list''),
                    (''results'', JList [rich_block ''c2'' ''paragraph'' ['' '']])])
      else Inl (ServiceError ''object_not_found''))"

text \<open>
  Search results: a page object with its properties, a title property with its rich-text
  runs, a date mention as a run (it has no \<^verbatim>\<open>text\<close> field), and the response of the search
  API for a list of pages.
\<close>

definition title_prop :: "json list \<Rightarrow> json" where
  "title_prop runs = JDict [(''id'', JStr ''title''), (''type'', JStr ''title''), (''title'', JList runs)]"

definition page_obj :: "string \<Rightarrow> string \<Rightarrow> (string \<times> json) list \<Rightarrow> json" where
  "page_obj page_id url props =
     JDict [(''object'', JStr ''page''), (''id'', JStr page_id), (''url'', JStr url),
            (''properties'', JDict props)]"

definition mention_run :: "string \<Rightarrow> json" where
  "mention_run s =
     JDict [(''type'', JStr ''mention''),
            (''mention'', JDict [(''type'', JStr ''date''),
                                 (''date'', JDict [(''start'', JStr ''2024-01-01'')])]),
            (''plain_text'', JStr s)]"

definition search_results :: "json list \<Rightarrow> search_api" where
  "search_results pages query = Inr (JDict [(''object'', JStr ''list''), (''results'', JList pages)])"

definition untitled_page :: json where
  "untitled_page = page_obj ''p0'' ''https://www.notion.so/p0'' [(''title'', title_prop [])]"

definition notes_page :: json where
  "notes_page = page_obj ''p1'' ''https://www.notion.so/p1'' [(''title'', title_prop [text_run ''Notes''])]"

definition dated_page :: json where
  "dated_page =
     page_obj ''p2'' ''https://www.notion.so/p2''
       [(''title'', title_prop [mention_run ''2024-01-01'', text_run '' Notes''])]"

definition named_page :: json where
  "named_page = page_obj ''p3'' ''https://www.notion.so/p3'' [(''Name'', title_prop [text_run ''Notes''])]"

text \<open>A database object with the runs of its title.\<close>

definition database_obj :: "string \<Rightarrow> string \<Rightarrow> json list \<Rightarrow> json" where
  "database_obj database_id url runs =
     JDict [(''object'', JStr ''database''), (''id'', JStr database_id), (''url'', JStr url),
            (''title'', JList runs)]"

text \<open>A heading block whose \<^verbatim>\<open>heading_1\<close> field is \<^verbatim>\<open>null\<close> instead of an object.\<close>

definition null_heading :: json where
  "null_heading =
     JDict [(''object'', JStr ''block''), (''id'', JStr ''b1''), (''type'', JStr ''heading_1''),
            (''heading_1'', JNull)]"

text \<open>A toggle block with a question and no \<^verbatim>\<open>id\<close>.\<close>

definition toggle_without_id :: json where
  "toggle_without_id =
     JDict [(''object'', JStr ''block''), (''type'', JStr ''toggle''),
            (''toggle'', JDict [(''rich_text'', JList [text_run ''Why?''])])]"

text \<open>The invariant of the walk: every topic, question and answer is non-empty after trimming.\<close>

definition trimmed :: "walk_state \<Rightarrow> bool" where
  "trimmed st =
     ((\<forall>t \<in> fst st. strip t \<noteq> []) \<and>
      (\<forall>qa \<in> set (snd st). strip (fst qa) \<noteq> [] \<and> strip (snd qa) \<noteq> []))"

section \<open>Notes and AnkiConnect responses\<close>

text \<open>
  The specification's words for a note that passes the validation gate: a dict with a deck name, a
  model name and a fields mapping that holds both \<^verbatim>\<open>Front\<close> and \<^verbatim>\<open>Back\<close>. It is compared
  with the loop of \<^verbatim>\<open>add_notes\<close> below.
\<close>

definition well_formed_note :: "json \<Rightarrow> bool" where
  "well_formed_note note =
     (case note of
        JDict kvs \<Rightarrow>
          map_of kvs ''deckName'' \<noteq> None \<and> map_of kvs ''modelName'' \<noteq> None \<and>
          (case map_of kvs ''fields'' of
             Some (JDict fs) \<Rightarrow> map_of fs ''Front'' \<noteq> None \<and> map_of fs ''Back'' \<noteq> None
           | _ \<Rightarrow> False)
      | _ \<Rightarrow> False)"

text \<open>
  Concrete inputs: the note that \<^verbatim>\<open>add_card\<close> builds, a note with no \<^verbatim>\<open>fields\<close>, the
  response of AnkiConnect to a call that succeeded, an AnkiConnect that creates decks and
  adds notes but is unreachable for every other action (\<^verbatim>\<open>sync\<close> among them), and a
  synthesizer that returns one card.
\<close>

definition basic_note :: "string \<Rightarrow> string \<Rightarrow> string \<Rightarrow> json" where
  "basic_note deck front back =
     JDict [(''deckName'', JStr deck), (''modelName'', JStr ''Basic''),
            (''fields'', JDict [(''Front'', JStr front), (''Back'', JStr back)]),
            (''options'', JDict [(''allowDuplicate'', JBool False)]),
            (''tags'', JList [])]"

definition note_without_fields :: json where
  "note_without_fields =
     JDict [(''deckName'', JStr ''Topic1''), (''modelName'', JStr ''Basic''),
            (''options'', JDict [(''allowDuplicate'', JBool False)]),
            (''tags'', JList [])]"

definition anki_response :: "json \<Rightarrow> json" where
  "anki_response result = JDict [(''result'', result), (''error'', JNull)]"

definition sync_fails :: transport where
  "sync_fails calls payload =
     (if py_item payload ''action'' = Inr (JStr ''createDeck'') then
        Inr (anki_response (JInt 1700000000000))
      else if py_item payload ''action'' = Inr (JStr ''addNotes'') then
        Inr (anki_response (JList [JInt 12345]))
      else Inl URLError)"

definition one_card :: synthesizer where
  "one_card name topics content = Inr [basic_note name ''What is X?'' ''X is Y.'']"

text \<open>
  Components that fail: a synthesizer whose service is unavailable, an AnkiConnect that
  cannot be reached, and one that creates decks but answers every other action with an
  error.
\<close>

definition synthesizer_down :: synthesizer where
  "synthesizer_down name topics content = Inl (ServiceError ''completion service unavailable'')"

definition anki_down :: transport where
  "anki_down calls payload = Inl URLError"

definition notes_rejected :: transport where
  "notes_rejected calls payload =
     (if py_item payload ''action'' = Inr (JStr ''createDeck'') then
        Inr (anki_response (JInt 1700000000000))
      else
        Inr (JDict [(''result'', JNull), (''error'', JStr ''model was not found: Basic'')]))"

section \<open>Properties of the block walker\<close>

subsection \<open>Loops and rendering\<close>

lemma ebind_Inr [simp]: "ebind (Inr x) f = f x"
  by (simp add: ebind_def)

lemma ebind_Inl [simp]: "ebind (Inl e) f = Inl e"
  by (simp add: ebind_def)

lemma efold_append: "efold f s (xs @ ys) = ebind (efold f s xs) (\<lambda>s'. efold f s' ys)"
  by (induction xs arbitrary: s) (auto split: sum.splits)

lemma add_excerpt_text_run [simp]: "add_excerpt full (text_run s) = Inr (full @ s)"
  by (simp add: add_excerpt_def text_run_def)

lemma efold_text_runs: "efold add_excerpt full (map text_run runs) = Inr (full @ concat runs)"
  by (induction runs arbitrary: full) auto

lemma render_runs_rich_block:
  "kind \<notin> {''object'', ''id'', ''type''} \<Longrightarrow>
   render_runs (rich_block i kind runs) kind init = Inr (init @ concat runs)"
  by (auto simp add: render_runs_def rich_block_def efold_text_runs)

lemma rich_block_type [simp]: "py_item (rich_block i kind runs) ''type'' = Inr (JStr kind)"
  by (simp add: rich_block_def)

lemma toggle_step_paragraph:
  "toggle_step st (rich_block i ''paragraph'' runs) =
     Inr (st\<lparr>answer := answer st @ concat runs @ ''\<newline>'',
              previous_type := Some (JStr ''paragraph'')\<rparr>)"
  by (simp add: toggle_step_def render_runs_rich_block)

lemma toggle_step_bulleted:
  "toggle_step st (rich_block i ''bulleted_list_item'' runs) =
     Inr (st\<lparr>answer := answer st @ ''- '' @ concat runs @ ''\<newline>'',
              previous_type := Some (JStr ''bulleted_list_item'')\<rparr>)"
  by (simp add: toggle_step_def render_runs_rich_block)

lemma toggle_step_numbered:
  "toggle_step st (rich_block i ''numbered_list_item'' runs) =
     (let n = (if previous_type st = Some (JStr ''numbered_list_item'') then number st + 1 else 1)
      in Inr (st\<lparr>answer := answer st @ str_of_nat n @ ''. '' @ concat runs @ ''\<newline>'',
              number := n,
              previous_type := Some (JStr ''numbered_list_item'')\<rparr>))"
  by (simp add: toggle_step_def render_runs_rich_block Let_def)

lemma toggle_step_previous_type:
  "toggle_step st b = Inr st' \<Longrightarrow> py_item b ''type'' = Inr ty \<Longrightarrow> previous_type st' = Some ty"
  by (auto simp add: toggle_step_def ebind_def Let_def split: sum.splits if_splits)

lemma toggle_step_type:
  "toggle_step st b = Inr st' \<Longrightarrow> \<exists>ty. py_item b ''type'' = Inr ty"
  by (auto simp add: toggle_step_def ebind_def Let_def split: sum.splits if_splits)

lemma toggle_loop_snoc:
  "toggle_loop st0 (bs @ [b]) = ebind (toggle_loop st0 bs) (\<lambda>st. toggle_step st b)"
  by (simp add: toggle_loop_def efold_append ebind_def split: sum.splits)

lemma toggle_loop_last_type:
  assumes "toggle_loop st0 (bs @ [b]) = Inr st"
  shows "previous_type st = Some (JStr ''numbered_list_item'')
           \<longleftrightarrow> py_item b ''type'' = Inr (JStr ''numbered_list_item'')"
proof -
  from assms obtain st1 where step: "toggle_step st1 b = Inr st"
    by (auto simp add: toggle_loop_snoc ebind_def split: sum.splits)
  from toggle_step_type [OF step] obtain ty where ty: "py_item b ''type'' = Inr ty" ..
  from toggle_step_previous_type [OF step ty] have "previous_type st = Some ty" .
  with ty show ?thesis by simp
qed

lemma add_excerpt_extends:
  assumes "add_excerpt full excerpt = Inr full'"
  shows "\<exists>txt. full' = full @ txt"
proof -
  have "py_str_add full c = Inr full' \<Longrightarrow> \<exists>txt. full' = full @ txt" for c
    by (cases c) auto
  with assms show ?thesis
    by (auto simp add: add_excerpt_def ebind_def split: sum.splits if_splits)
qed

lemma efold_add_excerpt_extends:
  assumes "efold add_excerpt full excerpts = Inr full'"
  shows "\<exists>txt. full' = full @ txt"
  using assms
proof (induction excerpts arbitrary: full)
  case Nil
  then show ?case by simp
next
  case (Cons x xs)
  from Cons.prems obtain f1 where f1: "add_excerpt full x = Inr f1"
    and rest: "efold add_excerpt f1 xs = Inr full'"
    by (auto split: sum.splits)
  from add_excerpt_extends [OF f1] obtain t1 where "f1 = full @ t1" ..
  moreover from Cons.IH [OF rest] obtain t2 where "full' = f1 @ t2" ..
  ultimately show ?case by simp
qed

lemma render_runs_extends:
  assumes "render_runs block kind init = Inr full"
  shows "\<exists>txt. full = init @ txt"
  using assms
  by (auto simp add: render_runs_def ebind_def split: sum.splits
      dest: efold_add_excerpt_extends)

lemma numbered_step_counter:
  assumes "toggle_step st0 b = Inr st"
    and "py_item b ''type'' = Inr (JStr ''numbered_list_item'')"
  shows "\<exists>txt. answer st = answer st0 @ str_of_nat (number st) @ ''. '' @ txt @ ''\<newline>''"
proof -
  define n where "n = (if previous_type st0 = Some (JStr ''numbered_list_item'')
                       then number st0 + 1 else 1)"
  from assms obtain full where
    full: "render_runs b ''numbered_list_item'' (str_of_nat n @ ''. '') = Inr full"
    and st: "st = st0\<lparr>answer := answer st0 @ full @ ''\<newline>'', number := n,
                       previous_type := Some (JStr ''numbered_list_item'')\<rparr>"
    by (auto simp add: toggle_step_def ebind_def Let_def n_def split: sum.splits)
  from render_runs_extends [OF full] obtain rest where "full = (str_of_nat n @ ''. '') @ rest" ..
  with st show ?thesis by simp
qed

lemma toggle_loop_last_step:
  assumes "toggle_loop st0 (bs @ [b]) = Inr st"
  shows "\<exists>st1. toggle_loop st0 bs = Inr st1 \<and> toggle_step st1 b = Inr st"
  using assms by (auto simp add: toggle_loop_snoc ebind_def split: sum.splits)

text \<open>
  C1: a toggle whose children are a paragraph "A", a bulleted item "B" and the numbered
  items "C" and "D" has the answer "A", "- B", "1. C", "2. D", each followed by one line
  break. In any loop state, a paragraph adds the text of its runs and a line break, a
  bulleted item "- ", the text and a line break, a numbered item its counter, ". ", the
  text and a line break.
\<close>

theorem toggle_answer_rendering:
  "get_toggle_answer
     (\<lambda>block_id. Inr (JDict [(''results'',
        JList [rich_block ''c1'' ''paragraph'' [''A''],
               rich_block ''c2'' ''bulleted_list_item'' [''B''],
               rich_block ''c3'' ''numbered_list_item'' [''C''],
               rich_block ''c4'' ''numbered_list_item'' [''D'']])]))
     toggle_id = Inr ''A\<newline>- B\<newline>1. C\<newline>2. D\<newline>''
   \<and> toggle_step st (rich_block i ''paragraph'' runs) =
       Inr (st\<lparr>answer := answer st @ concat runs @ ''\<newline>'',
                previous_type := Some (JStr ''paragraph'')\<rparr>)
   \<and> toggle_step st (rich_block i ''bulleted_list_item'' runs) =
       Inr (st\<lparr>answer := answer st @ ''- '' @ concat runs @ ''\<newline>'',
                previous_type := Some (JStr ''bulleted_list_item'')\<rparr>)
   \<and> toggle_step st (rich_block i ''numbered_list_item'' runs) =
       (let n = (if previous_type st = Some (JStr ''numbered_list_item'')
                 then number st + 1 else 1)
        in Inr (st\<lparr>answer := answer st @ str_of_nat n @ ''. '' @ concat runs @ ''\<newline>'',
                   number := n,
                   previous_type := Some (JStr ''numbered_list_item'')\<rparr>))"
proof (intro conjI)
  show "get_toggle_answer
     (\<lambda>block_id. Inr (JDict [(''results'',
        JList [rich_block ''c1'' ''paragraph'' [''A''],
               rich_block ''c2'' ''bulleted_list_item'' [''B''],
               rich_block ''c3'' ''numbered_list_item'' [''C''],
               rich_block ''c4'' ''numbered_list_item'' [''D'']])]))
     toggle_id = Inr ''A\<newline>- B\<newline>1. C\<newline>2. D\<newline>''"
    by (simp add: get_toggle_answer_def toggle_loop_def toggle_step_numbered toggle_step_paragraph
        toggle_step_bulleted toggle_init_def str_of_nat.simps digit_def)
qed (simp_all only: toggle_step_paragraph toggle_step_bulleted toggle_step_numbered)

text \<open>
  C2: after the siblings \<open>bs\<close> and \<open>b\<close>, a numbered item gets the counter 1 when \<open>b\<close>, of
  whatever type, is not a numbered item, and the counter of \<open>b\<close> plus 1 when it is (the
  counter of \<open>b\<close> is the number in the loop state after \<open>b\<close>: \<open>b\<close> was rendered with it);
  the first child gets 1. The children numbered "X", paragraph "gap", numbered "Y" give
  "1. X", "gap", "1. Y".
\<close>

theorem numbered_counter:
  "(toggle_loop toggle_init (bs @ [b]) = Inr st \<longrightarrow>
      toggle_loop toggle_init (bs @ [b, rich_block i ''numbered_list_item'' runs]) =
        (let n = (if py_item b ''type'' = Inr (JStr ''numbered_list_item'')
                  then number st + 1 else 1)
         in Inr (st\<lparr>answer := answer st @ str_of_nat n @ ''. '' @ concat runs @ ''\<newline>'',
                    number := n,
                    previous_type := Some (JStr ''numbered_list_item'')\<rparr>))
      \<and> (py_item b ''type'' = Inr (JStr ''numbered_list_item'') \<longrightarrow>
           (\<exists>st1 rendered. toggle_loop toggle_init bs = Inr st1
              \<and> answer st
                  = answer st1 @ str_of_nat (number st) @ ''. '' @ rendered @ ''\<newline>'')))
   \<and> toggle_loop toggle_init [rich_block i ''numbered_list_item'' runs] =
        Inr \<lparr>answer = ''1. '' @ concat runs @ ''\<newline>'', number = 1,
             previous_type = Some (JStr ''numbered_list_item'')\<rparr>
   \<and> get_toggle_answer
        (\<lambda>block_id. Inr (JDict [(''results'',
           JList [rich_block ''c1'' ''numbered_list_item'' [''X''],
                  rich_block ''c2'' ''paragraph'' [''gap''],
                  rich_block ''c3'' ''numbered_list_item'' [''Y'']])]))
        toggle_id = Inr ''1. X\<newline>gap\<newline>1. Y\<newline>''"
proof (intro conjI impI)
  assume loop: "toggle_loop toggle_init (bs @ [b]) = Inr st"
  have "bs @ [b, rich_block i ''numbered_list_item'' runs]
          = (bs @ [b]) @ [rich_block i ''numbered_list_item'' runs]"
    by simp
  then have "toggle_loop toggle_init (bs @ [b, rich_block i ''numbered_list_item'' runs])
               = toggle_step st (rich_block i ''numbered_list_item'' runs)"
    using loop by (simp only: toggle_loop_snoc ebind_Inr)
  then show "toggle_loop toggle_init (bs @ [b, rich_block i ''numbered_list_item'' runs]) =
        (let n = (if py_item b ''type'' = Inr (JStr ''numbered_list_item'')
                  then number st + 1 else 1)
         in Inr (st\<lparr>answer := answer st @ str_of_nat n @ ''. '' @ concat runs @ ''\<newline>'',
                    number := n,
                    previous_type := Some (JStr ''numbered_list_item'')\<rparr>))"
    using toggle_loop_last_type [OF loop] by (simp add: toggle_step_numbered Let_def)
next
  assume loop: "toggle_loop toggle_init (bs @ [b]) = Inr st"
    and numbered: "py_item b ''type'' = Inr (JStr ''numbered_list_item'')"
  from toggle_loop_last_step [OF loop] obtain st1
    where st1: "toggle_loop toggle_init bs = Inr st1" and step: "toggle_step st1 b = Inr st"
    by blast
  from numbered_step_counter [OF step numbered] st1
  show "\<exists>st1 rendered. toggle_loop toggle_init bs = Inr st1
              \<and> answer st
                  = answer st1 @ str_of_nat (number st) @ ''. '' @ rendered @ ''\<newline>''"
    by blast
next
  show "toggle_loop toggle_init [rich_block i ''numbered_list_item'' runs] =
        Inr \<lparr>answer = ''1. '' @ concat runs @ ''\<newline>'', number = 1,
             previous_type = Some (JStr ''numbered_list_item'')\<rparr>"
    by (simp add: toggle_loop_def toggle_step_numbered toggle_init_def str_of_nat.simps digit_def)
next
  show "get_toggle_answer
        (\<lambda>block_id. Inr (JDict [(''results'',
           JList [rich_block ''c1'' ''numbered_list_item'' [''X''],
                  rich_block ''c2'' ''paragraph'' [''gap''],
                  rich_block ''c3'' ''numbered_list_item'' [''Y'']])]))
        toggle_id = Inr ''1. X\<newline>gap\<newline>1. Y\<newline>''"
    by (simp add: get_toggle_answer_def toggle_loop_def toggle_step_numbered toggle_step_paragraph
        toggle_init_def str_of_nat.simps digit_def)
qed

theorem numbered_counter_witness:
  "toggle_loop toggle_init
     ([rich_block ''c1'' ''numbered_list_item'' [''X'']] @ [rich_block ''c2'' ''paragraph'' [''gap'']])
     = Inr \<lparr>answer = ''1. X\<newline>gap\<newline>'', number = 1,
            previous_type = Some (JStr ''paragraph'')\<rparr>
   \<and> toggle_loop toggle_init
     ([rich_block ''c1'' ''numbered_list_item'' [''X'']]
        @ [rich_block ''c2'' ''paragraph'' [''gap''], rich_block ''c3'' ''numbered_list_item'' [''Y'']])
     = Inr \<lparr>answer = ''1. X\<newline>gap\<newline>1. Y\<newline>'', number = 1,
            previous_type = Some (JStr ''numbered_list_item'')\<rparr>
   \<and> toggle_loop toggle_init ([] @ [rich_block ''c1'' ''numbered_list_item'' [''X'']])
     = Inr \<lparr>answer = ''1. X\<newline>'', number = 1,
            previous_type = Some (JStr ''numbered_list_item'')\<rparr>
   \<and> py_item (rich_block ''c1'' ''numbered_list_item'' [''X'']) ''type''
     = Inr (JStr ''numbered_list_item'')
   \<and> toggle_loop toggle_init
     ([] @ [rich_block ''c1'' ''numbered_list_item'' [''X''],
            rich_block ''c4'' ''numbered_list_item'' [''Z'']])
     = Inr \<lparr>answer = ''1. X\<newline>2. Z\<newline>'', number = 2,
            previous_type = Some (JStr ''numbered_list_item'')\<rparr>"
proof -
  have gap: "toggle_loop toggle_init
     ([rich_block ''c1'' ''numbered_list_item'' [''X'']] @ [rich_block ''c2'' ''paragraph'' [''gap'']])
     = Inr \<lparr>answer = ''1. X\<newline>gap\<newline>'', number = 1,
            previous_type = Some (JStr ''paragraph'')\<rparr>"
    by (simp add: toggle_loop_def toggle_step_numbered toggle_step_paragraph toggle_init_def
        str_of_nat.simps digit_def)
  have one: "toggle_loop toggle_init ([] @ [rich_block ''c1'' ''numbered_list_item'' [''X'']])
     = Inr \<lparr>answer = ''1. X\<newline>'', number = 1,
            previous_type = Some (JStr ''numbered_list_item'')\<rparr>"
    by (simp add: toggle_loop_def toggle_step_numbered toggle_init_def str_of_nat.simps digit_def)
  from numbered_counter [of "[rich_block ''c1'' ''numbered_list_item'' [''X'']]"
      "rich_block ''c2'' ''paragraph'' [''gap'']" _ "''c3''" "[''Y'']"] gap
    numbered_counter [of "[]" "rich_block ''c1'' ''numbered_list_item'' [''X'']" _
      "''c4''" "[''Z'']"] one
  show ?thesis
    by (simp add: str_of_nat.simps digit_def)
qed

subsection \<open>The walk over the top-level blocks\<close>

lemma rich_block_get_type [simp]: "py_get (rich_block i kind runs) ''type'' d = Inr (JStr kind)"
  by (simp add: rich_block_def)

lemma rich_block_get_kind:
  "kind \<notin> {''object'', ''id'', ''type''} \<Longrightarrow>
   py_get (rich_block i kind runs) kind d = Inr (JDict [(''rich_text'', JList (map text_run runs))])"
  by (auto simp add: rich_block_def)

lemma rich_block_id [simp]: "py_item (rich_block i kind runs) ''id'' = Inr (JStr i)"
  by (simp add: rich_block_def)

lemma first_run_has_text_runs [simp]:
  "first_run_has_text (JList (text_run r # rs)) = Inr True"
  by (simp add: first_run_has_text_def text_run_def)

lemma first_run_content_runs [simp]:
  "first_run_content (JList (text_run r # rs)) = Inr (JStr r)"
  by (simp add: first_run_content_def text_run_def)

lemma toggle_branch_rich_block:
  "toggle_branch children st (rich_block i ''toggle'' (q # runs)) =
     (if strip q \<noteq> [] then
        ebind (get_toggle_answer children (JStr i)) (\<lambda>ans.
          if strip ans \<noteq> [] then Inr (fst st, AList.update (strip q) (strip ans) (snd st))
          else Inr st)
      else Inr st)"
  by (simp add: toggle_branch_def rich_block_get_kind)

lemma heading_branch_rich_block:
  "kind \<notin> {''object'', ''id'', ''type''} \<Longrightarrow>
   heading_branch st (rich_block i kind (h # runs)) kind =
     (if strip h \<noteq> [] then Inr (insert (strip h) (fst st), snd st) else Inr st)"
  by (simp add: heading_branch_def rich_block_get_kind)

lemma not_heading_toggle [simp]: "\<not> sublist ''heading'' ''toggle''"
  by (simp add: sublist_code)

lemma analyze_block_toggle:
  "analyze_block children st (rich_block i ''toggle'' (q # runs)) =
     try_except
       (if strip q \<noteq> [] then
          ebind (get_toggle_answer children (JStr i)) (\<lambda>ans.
            if strip ans \<noteq> [] then Inr (fst st, AList.update (strip q) (strip ans) (snd st))
            else Inr st)
        else Inr st)
       block_errors (\<lambda>e. Inr st)"
  by (simp add: analyze_block_def block_body_def toggle_branch_rich_block)

lemma analyze_block_heading:
  "sublist ''heading'' kind \<Longrightarrow> kind \<notin> {''object'', ''id'', ''type''} \<Longrightarrow>
   analyze_block children st (rich_block i kind (h # runs)) =
     (if strip h \<noteq> [] then Inr (insert (strip h) (fst st), snd st) else Inr st)"
  by (simp add: analyze_block_def block_body_def heading_branch_rich_block try_except_def)

lemma workspace_answer:
  "get_toggle_answer workspace (JStr ''t1'') = Inr ''X is Y.\<newline>''"
  by (simp add: get_toggle_answer_def workspace_def toggle_loop_def toggle_init_def
      toggle_step_paragraph)

lemma workspace_blank_answer:
  "get_toggle_answer workspace (JStr ''t2'') = Inr '' \<newline>''"
  by (simp add: get_toggle_answer_def workspace_def toggle_loop_def toggle_init_def
      toggle_step_paragraph)

lemma strip_blank: "strip ''  '' = [] \<and> strip '' \<newline>'' = []"
  by (simp add: strip_def py_isspace_def)

lemma strip_question: "strip ''What is X?'' = ''What is X?''"
  by (simp add: strip_def py_isspace_def)

lemma strip_answer: "strip ''X is Y.\<newline>'' = ''X is Y.''"
  by (simp add: strip_def py_isspace_def)

lemma analyze_blocks_workspace:
  "analyze_blocks workspace (JList [rich_block ''t1'' ''toggle'' [''What is X?'']])
     = Inr ({}, [(''What is X?'', ''X is Y.'')])"
  by (simp add: analyze_blocks_def analyze_block_toggle workspace_answer strip_question
      strip_answer try_except_def)

subsection \<open>Trimming\<close>

lemma dropWhile_self: "xs = [] \<or> \<not> P (hd xs) \<Longrightarrow> dropWhile P xs = xs"
  by (cases xs) auto

lemma strip_idem: "strip (strip s) = strip s"
proof -
  define t where "t = dropWhile py_isspace s"
  define u where "u = dropWhile py_isspace (rev t)"
  have s: "strip s = rev u"
    by (simp add: strip_def t_def u_def)
  show ?thesis
  proof (cases "u = []")
    case True
    then show ?thesis by (simp add: s) (simp add: strip_def)
  next
    case False
    then have hu: "\<not> py_isspace (hd u)"
      unfolding u_def by (rule hd_dropWhile)
    have "rev t = takeWhile py_isspace (rev t) @ u"
      by (simp add: u_def)
    then have "last (rev t) = last u"
      using False by (metis last_appendR)
    moreover have tne: "t \<noteq> []"
      using False by (auto simp add: u_def)
    ultimately have "hd (rev u) = hd t"
      using False by (simp add: hd_rev last_rev)
    moreover have "\<not> py_isspace (hd t)"
      using tne unfolding t_def by (rule hd_dropWhile)
    ultimately have "dropWhile py_isspace (rev u) = rev u"
      by (simp add: dropWhile_self)
    moreover have "dropWhile py_isspace u = u"
      using hu by (simp add: dropWhile_self)
    ultimately have "strip (rev u) = rev u"
      by (simp add: strip_def)
    then show ?thesis by (simp add: s)
  qed
qed

lemma set_update_subset: "set (AList.update k v al) \<subseteq> insert (k, v) (set al)"
  by (induction al) auto

lemma trimmed_insert:
  "trimmed st \<Longrightarrow> strip h \<noteq> [] \<Longrightarrow> trimmed (insert (strip h) (fst st), snd st)"
  by (simp add: trimmed_def strip_idem)

lemma trimmed_update:
  "trimmed st \<Longrightarrow> strip q \<noteq> [] \<Longrightarrow> strip a \<noteq> [] \<Longrightarrow>
   trimmed (fst st, AList.update (strip q) (strip a) (snd st))"
  using set_update_subset [of "strip q" "strip a" "snd st"]
  by (auto simp add: trimmed_def strip_idem)

lemma py_strip_Inr: "py_strip v = Inr h \<Longrightarrow> \<exists>s. v = JStr s \<and> h = strip s"
  by (cases v) auto

lemma heading_branch_trimmed:
  "heading_branch st block ty = Inr st' \<Longrightarrow> trimmed st \<Longrightarrow> trimmed st'"
  by (auto simp add: heading_branch_def ebind_def trimmed_insert
      split: sum.splits if_splits dest!: py_strip_Inr)

lemma toggle_branch_trimmed:
  "toggle_branch children st block = Inr st' \<Longrightarrow> trimmed st \<Longrightarrow> trimmed st'"
  by (auto simp add: toggle_branch_def ebind_def trimmed_update
      split: sum.splits if_splits dest!: py_strip_Inr)

lemma block_body_trimmed:
  "block_body children st block ty = Inr st' \<Longrightarrow> trimmed st \<Longrightarrow> trimmed st'"
  by (auto simp add: block_body_def ebind_def
      split: sum.splits if_splits json.splits
      dest: heading_branch_trimmed toggle_branch_trimmed)

lemma analyze_block_trimmed:
  "analyze_block children st block = Inr st' \<Longrightarrow> trimmed st \<Longrightarrow> trimmed st'"
  by (auto simp add: analyze_block_def ebind_def try_except_def
      split: sum.splits if_splits dest: block_body_trimmed)

lemma efold_invariant:
  "efold f s xs = Inr s' \<Longrightarrow> P s \<Longrightarrow> (\<And>a x b. f a x = Inr b \<Longrightarrow> P a \<Longrightarrow> P b) \<Longrightarrow> P s'"
proof (induction xs arbitrary: s)
  case Nil
  then show ?case by simp
next
  case (Cons x xs)
  from Cons.prems(1) obtain s1 where s1: "f s x = Inr s1" and rest: "efold f s1 xs = Inr s'"
    by (auto split: sum.splits)
  from Cons.prems(3) [OF s1 Cons.prems(2)] have "P s1" .
  from Cons.IH [OF rest this Cons.prems(3)] show ?case .
qed

lemma analyze_blocks_trimmed:
  assumes "analyze_blocks children blocks = Inr st"
  shows "trimmed st"
proof -
  from assms obtain bs where "efold (analyze_block children) ({}, []) bs = Inr st"
    by (auto simp add: analyze_blocks_def ebind_def split: sum.splits)
  moreover have "trimmed ({}, [])"
    by (simp add: trimmed_def)
  ultimately show ?thesis
    by (rule efold_invariant) (rule analyze_block_trimmed)
qed

text \<open>
  C3 (as stated): for the page whose one toggle has the question "What is X?" and the one
  paragraph child "X is Y.", the mapping would hold the answer with its trailing line
  break. The walk stores \<^verbatim>\<open>answer.strip()\<close>: the mapping it produces is another one.
\<close>

theorem stored_answer_line_break_counterexample:
  "analyze_blocks workspace (JList [rich_block ''t1'' ''toggle'' [''What is X?'']])
     \<noteq> Inr ({}, [(''What is X?'', ''X is Y.\<newline>'')])"
  by (simp add: analyze_blocks_workspace)

text \<open>
  C3 (amended): extraction produces the mapping from "What is X?" to "X is Y.", the
  reconstructed text trimmed at both ends. In general a toggle with a non-blank question
  \<open>q\<close> whose reconstructed answer \<open>ans\<close> is not blank stores \<open>strip ans\<close> under \<open>strip q\<close>,
  replacing an earlier answer under that key.
\<close>

theorem stored_answer_trimmed:
  "analyze_blocks workspace (JList [rich_block ''t1'' ''toggle'' [''What is X?'']])
     = Inr ({}, [(''What is X?'', ''X is Y.'')])
   \<and> (get_toggle_answer children (JStr i) = Inr ans \<and> strip q \<noteq> [] \<and> strip ans \<noteq> [] \<longrightarrow>
        analyze_block children (topics, content) (rich_block i ''toggle'' (q # runs))
          = Inr (topics, AList.update (strip q) (strip ans) content))"
  by (simp add: analyze_blocks_workspace analyze_block_toggle try_except_def)

theorem stored_answer_trimmed_witness:
  "get_toggle_answer workspace (JStr ''t1'') = Inr ''X is Y.\<newline>''
   \<and> strip ''What is X?'' \<noteq> [] \<and> strip ''X is Y.\<newline>'' \<noteq> []
   \<and> analyze_block workspace ({}, [(''What is X?'', ''old'')])
        (rich_block ''t1'' ''toggle'' [''What is X?''])
        = Inr ({}, [(''What is X?'', ''X is Y.'')])"
  using stored_answer_trimmed [of workspace "''t1''" "''X is Y.\<newline>''" "''What is X?''"
      "{}" "[(''What is X?'', ''old'')]" "[]"]
  by (simp add: workspace_answer strip_question strip_answer)

text \<open>
  C9: every topic and every question (and answer) the walk returns is non-empty after
  trimming; a heading whose first text run is blank leaves the state as it was, and so
  does a toggle whose question is blank or whose reconstructed answer trims to nothing.
\<close>

theorem walk_results_trimmed:
  "(analyze_blocks children blocks = Inr (topics, content) \<longrightarrow>
      (\<forall>t \<in> topics. strip t \<noteq> []) \<and>
      (\<forall>(q, a) \<in> set content. strip q \<noteq> [] \<and> strip a \<noteq> []))
   \<and> (kind \<in> {''heading_1'', ''heading_2'', ''heading_3''} \<and> strip h = [] \<longrightarrow>
        analyze_block children st (rich_block i kind (h # runs)) = Inr st)
   \<and> (strip q = [] \<longrightarrow>
        analyze_block children st (rich_block j ''toggle'' (q # qruns)) = Inr st)
   \<and> (get_toggle_answer children (JStr k) = Inr ans \<and> strip ans = [] \<longrightarrow>
        analyze_block children st (rich_block k ''toggle'' (q' # qruns')) = Inr st)"
proof (intro conjI impI)
  assume "analyze_blocks children blocks = Inr (topics, content)"
  then have "trimmed (topics, content)"
    by (rule analyze_blocks_trimmed)
  then show "\<forall>t \<in> topics. strip t \<noteq> []"
    and "\<forall>(q, a) \<in> set content. strip q \<noteq> [] \<and> strip a \<noteq> []"
    by (auto simp add: trimmed_def)
next
  assume "kind \<in> {''heading_1'', ''heading_2'', ''heading_3''} \<and> strip h = []"
  then have "sublist ''heading'' kind" and "kind \<notin> {''object'', ''id'', ''type''}"
    and "strip h = []"
    by (auto simp add: sublist_code)
  then show "analyze_block children st (rich_block i kind (h # runs)) = Inr st"
    by (simp add: analyze_block_heading)
next
  assume "strip q = []"
  then show "analyze_block children st (rich_block j ''toggle'' (q # qruns)) = Inr st"
    by (simp add: analyze_block_toggle try_except_def)
next
  assume "get_toggle_answer children (JStr k) = Inr ans \<and> strip ans = []"
  then show "analyze_block children st (rich_block k ''toggle'' (q' # qruns')) = Inr st"
    by (simp add: analyze_block_toggle try_except_def)
qed

theorem walk_results_trimmed_witness:
  "analyze_blocks workspace
       (JList [rich_block ''h1'' ''heading_1'' ['' Topic1 ''],
               rich_block ''h2'' ''heading_2'' [''  ''],
               rich_block ''t1'' ''toggle'' [''What is X?'']])
     = Inr ({''Topic1''}, [(''What is X?'', ''X is Y.'')])
   \<and> strip ''Topic1'' \<noteq> [] \<and> strip ''What is X?'' \<noteq> [] \<and> strip ''X is Y.'' \<noteq> []
   \<and> strip ''  '' = []
   \<and> analyze_block workspace ({''Topic1''}, []) (rich_block ''h2'' ''heading_2'' [''  ''])
       = Inr ({''Topic1''}, [])
   \<and> analyze_block workspace ({''Topic1''}, []) (rich_block ''t1'' ''toggle'' [''  ''])
       = Inr ({''Topic1''}, [])
   \<and> get_toggle_answer workspace (JStr ''t2'') = Inr '' \<newline>''
   \<and> strip '' \<newline>'' = []
   \<and> analyze_block workspace ({''Topic1''}, []) (rich_block ''t2'' ''toggle'' [''Why?''])
       = Inr ({''Topic1''}, [])"
proof -
  have walk: "analyze_blocks workspace
       (JList [rich_block ''h1'' ''heading_1'' ['' Topic1 ''],
               rich_block ''h2'' ''heading_2'' [''  ''],
               rich_block ''t1'' ''toggle'' [''What is X?'']])
     = Inr ({''Topic1''}, [(''What is X?'', ''X is Y.'')])"
    by (simp add: analyze_blocks_def analyze_block_toggle analyze_block_heading sublist_code
        workspace_answer strip_question strip_answer try_except_def strip_blank)
       (simp add: strip_def py_isspace_def)
  from walk_results_trimmed [where children = workspace and topics = "{''Topic1''}"
      and content = "[(''What is X?'', ''X is Y.'')]" and kind = "''heading_2''"
      and h = "''  ''" and st = "({''Topic1''}, [])" and i = "''h2''" and runs = "[]"
      and q = "''  ''" and j = "''t1''" and qruns = "[]"
      and k = "''t2''" and ans = "'' \<newline>''" and q' = "''Why?''" and qruns' = "[]"] walk
  show ?thesis
    by (simp add: strip_blank workspace_blank_answer)
qed

subsection \<open>Blocks that raise\<close>

lemma caught_error_skips_block:
  assumes "py_get block ''type'' (JStr []) = Inr ty"
    and "block_body children st block ty = Inl e"
    and "block_errors e"
  shows "analyze_block children st block = Inr st"
  using assms by (simp add: analyze_block_def try_except_def)

lemma efold_skip:
  assumes "\<And>s. f s x = Inr s"
  shows "efold f s (xs @ x # ys) = efold f s (xs @ ys)"
  using assms by (simp add: efold_append)

lemma skipped_block_dropped:
  assumes "\<And>st. analyze_block children st b = Inr st"
  shows "analyze_blocks children (JList (bs1 @ b # bs2)) = analyze_blocks children (JList (bs1 @ bs2))"
  using assms by (simp add: analyze_blocks_def efold_skip)

lemma toggle_without_id_skipped: "analyze_block children st toggle_without_id = Inr st"
  by (simp add: analyze_block_def block_body_def toggle_branch_def toggle_without_id_def
      sublist_code try_except_def block_errors_def strip_def py_isspace_def)

lemma analyze_block_escapes:
  assumes "analyze_block children st block = Inl e"
  shows "\<not> block_errors e"
  using assms
  by (cases block)
     (auto simp add: analyze_block_def try_except_def ebind_def block_errors_def
        split: sum.splits if_splits)

lemma efold_error:
  assumes "efold f s xs = Inl e"
  shows "\<exists>s' x. x \<in> set xs \<and> f s' x = Inl e"
  using assms
proof (induction xs arbitrary: s)
  case Nil
  then show ?case by simp
next
  case (Cons x xs)
  show ?case
  proof (cases "f s x")
    case (Inl e')
    with Cons.prems show ?thesis by auto
  next
    case (Inr s1)
    with Cons.prems have "efold f s1 xs = Inl e" by simp
    from Cons.IH [OF this] show ?thesis by auto
  qed
qed

lemma analyze_blocks_escapes:
  assumes "analyze_blocks children (JList bs) = Inl e"
  shows "\<not> block_errors e"
proof -
  from assms have "efold (analyze_block children) ({}, []) bs = Inl e"
    by (simp add: analyze_blocks_def)
  from efold_error [OF this] obtain s' x where "analyze_block children s' x = Inl e"
    by blast
  then show ?thesis by (rule analyze_block_escapes)
qed

text \<open>
  C5: a malformed top-level block must never end the walk of its siblings. The handler of
  the loop body catches KeyError, IndexError and TypeError only: a heading whose
  \<^verbatim>\<open>heading_1\<close> field is \<^verbatim>\<open>null\<close> raises AttributeError at \<^verbatim>\<open>heading_data.get\<close>, and
  the walk ends with that exception, although the next sibling alone gives the topic
  "Topic".
\<close>

theorem null_field_aborts_walk:
  "analyze_blocks children (JList [null_heading, rich_block ''b2'' ''heading_2'' [''Topic'']])
     = Inl AttributeError
   \<and> analyze_blocks children (JList [rich_block ''b2'' ''heading_2'' [''Topic'']])
     = Inr ({''Topic''}, [])"
  by (simp add: analyze_blocks_def analyze_block_heading sublist_code)
     (simp add: analyze_block_def block_body_def heading_branch_def null_heading_def sublist_code
        try_except_def block_errors_def strip_def py_isspace_def)

section \<open>Properties of the page locator\<close>

lemmas page_fixtures = search_results_def page_obj_def title_prop_def text_run_def mention_run_def
  untitled_page_def notes_page_def dated_page_def named_page_def

lemmas search_defs = search_notion_page_def page_match_def title_content_def found_def

lemma page_match_titled:
  assumes "key = ''title'' \<or> key = ''Name''"
  shows "page_match page_title (page_obj page_id url [(key, title_prop (text_run t # runs))])
     = Inr (if t = page_title
            then Some (JDict [(''result'', JStr ''Found''), (''page_id'', JStr page_id),
                              (''link'', JStr url)])
            else None)"
  using assms
  by (auto simp add: page_match_def title_content_def found_def page_obj_def title_prop_def
      text_run_def)

lemma database_search_guards_titles:
  "search_notion_database
     (search_results [database_obj ''d0'' ''https://www.notion.so/d0'' [],
                      database_obj ''d1'' ''https://www.notion.so/d1'' [text_run ''Notes'']])
     ''Notes''
     = Inr (Some (JDict [(''result'', JStr ''Found''), (''database_id'', JStr ''d1''),
                         (''link'', JStr ''https://www.notion.so/d1'')]))
   \<and> search_notion_database
     (search_results [database_obj ''d2'' ''https://www.notion.so/d2''
                        [mention_run ''2024-01-01'', text_run '' Notes'']])
     ''Notes''
     = Inr None"
  by (simp add: search_notion_database_def database_match_def found_database_def
      database_obj_def search_results_def text_run_def mention_run_def try_except_def)

text \<open>
  C4: the page locator must return the first result whose title equals the input, and
  none when no result matches, without an exception. It indexes \<^verbatim>\<open>['title'][0]['text']\<close>
  unguarded: an untitled page among the results raises IndexError although the next result
  matches (alone, that result is found), and a page whose title starts with a date mention
  raises KeyError where no result matches.
\<close>

theorem missing_title_run_raises:
  "search_notion_page (search_results [untitled_page, notes_page]) ''Notes'' = Inl IndexError
   \<and> search_notion_page (search_results [notes_page]) ''Notes''
       = Inr (Some (JDict [(''result'', JStr ''Found''), (''page_id'', JStr ''p1''),
                           (''link'', JStr ''https://www.notion.so/p1'')]))
   \<and> search_notion_page (search_results [dated_page]) ''Notes'' = Inl KeyError"
  by (simp add: search_defs page_fixtures)

section \<open>Properties of the extraction tool\<close>

lemma fetch_page_content_Some:
  assumes "fetch_page_content children page_id = Inr (Some r)"
  shows "fst r \<noteq> {} \<and> snd r \<noteq> []"
  using assms
  by (auto simp add: fetch_page_content_def ebind_def split: sum.splits if_splits)

lemma fetch_page_content_None:
  assumes "children (JStr page_id) = Inr response"
    and "py_item response ''results'' = Inr blocks"
    and "analyze_blocks children blocks = Inr r"
    and "fst r = {} \<or> snd r = []"
  shows "fetch_page_content children page_id = Inr None"
  using assms by (auto simp add: fetch_page_content_def)

lemma extract_success:
  assumes "extract_page_content children page_id = Inr env"
    and "map_of env ''status'' = Some (FStr ''success'')"
  shows "\<exists>pid r. page_id = Some pid \<and> fetch_page_content children (strip pid) = Inr (Some r)
           \<and> map_of env ''topics'' = Some (FTopics (fst r))
           \<and> map_of env ''content'' = Some (FContent (snd r))"
proof (cases "blank page_id")
  case True
  with assms show ?thesis by (auto simp add: extract_page_content_def)
next
  case False
  then obtain pid where pid: "page_id = Some pid"
    by (cases page_id) (auto simp add: blank_def)
  show ?thesis
  proof (cases "fetch_page_content children (strip pid)")
    case (Inl e)
    with assms False pid show ?thesis
      by (auto simp add: extract_page_content_def try_except_def any_exception_def)
  next
    case (Inr r)
    with assms False pid show ?thesis
      by (cases r)
         (auto simp add: extract_page_content_def try_except_def any_exception_def
            unpack_pair_def split: if_splits)
  qed
qed

text \<open>
  C10: \<^verbatim>\<open>fetch_page_content\<close> returns the pair only when the topics and the content are
  both non-empty; a success envelope of \<^verbatim>\<open>extract_page_content\<close> carries non-empty topics
  and non-empty content; and a page whose walk yields no topic or no Q&A pair makes
  \<^verbatim>\<open>fetch_page_content\<close> return \<^verbatim>\<open>None\<close>, which \<^verbatim>\<open>extract_page_content\<close> fails to unpack
  and reports as an error envelope.
\<close>

theorem success_needs_topics_and_content:
  "(fetch_page_content children page_id = Inr (Some (topics, content)) \<longrightarrow>
      topics \<noteq> {} \<and> content \<noteq> [])
   \<and> (extract_page_content children arg = Inr env
        \<and> map_of env ''status'' = Some (FStr ''success'') \<longrightarrow>
      (\<exists>ts cs. ts \<noteq> {} \<and> cs \<noteq> []
         \<and> map_of env ''topics'' = Some (FTopics ts)
         \<and> map_of env ''content'' = Some (FContent cs)))
   \<and> (\<not> blank (Some p) \<and> children (JStr (strip p)) = Inr response
        \<and> py_item response ''results'' = Inr blocks
        \<and> analyze_blocks children blocks = Inr (topics', content')
        \<and> (topics' = {} \<or> content' = []) \<longrightarrow>
      fetch_page_content children (strip p) = Inr None
      \<and> extract_page_content children (Some p)
          = Inr [(''status'', FStr ''error''), (''topics'', FTopics {}),
                 (''content'', FContent []),
                 (''message'', FError ''Content extraction failed: '' TypeError)])"
proof (intro conjI impI)
  assume "fetch_page_content children page_id = Inr (Some (topics, content))"
  from fetch_page_content_Some [OF this] show "topics \<noteq> {}" and "content \<noteq> []"
    by simp_all
next
  assume a: "extract_page_content children arg = Inr env
        \<and> map_of env ''status'' = Some (FStr ''success'')"
  then obtain pid r where r: "fetch_page_content children (strip pid) = Inr (Some r)"
    and env: "map_of env ''topics'' = Some (FTopics (fst r))"
      "map_of env ''content'' = Some (FContent (snd r))"
    using extract_success [of children arg env] by blast
  from fetch_page_content_Some [OF r] env
  show "\<exists>ts cs. ts \<noteq> {} \<and> cs \<noteq> []
         \<and> map_of env ''topics'' = Some (FTopics ts)
         \<and> map_of env ''content'' = Some (FContent cs)"
    by blast
next
  assume a: "\<not> blank (Some p) \<and> children (JStr (strip p)) = Inr response
        \<and> py_item response ''results'' = Inr blocks
        \<and> analyze_blocks children blocks = Inr (topics', content')
        \<and> (topics' = {} \<or> content' = [])"
  then have none: "fetch_page_content children (strip p) = Inr None"
    using fetch_page_content_None [of children "strip p" response blocks "(topics', content')"]
    by simp
  from none show "fetch_page_content children (strip p) = Inr None" .
  from a none show "extract_page_content children (Some p)
          = Inr [(''status'', FStr ''error''), (''topics'', FTopics {}),
                 (''content'', FContent []),
                 (''message'', FError ''Content extraction failed: '' TypeError)]"
    by (simp add: extract_page_content_def try_except_def any_exception_def unpack_pair_def)
qed

lemma analyze_blocks_p2:
  "analyze_blocks workspace
     (JList [rich_block ''h1'' ''heading_1'' [''Topic1''],
             rich_block ''t1'' ''toggle'' [''What is X?'']])
     = Inr ({''Topic1''}, [(''What is X?'', ''X is Y.'')])"
  by (simp add: analyze_blocks_def analyze_block_toggle analyze_block_heading sublist_code
      workspace_answer strip_question strip_answer try_except_def)
     (simp add: strip_def py_isspace_def)

lemma strip_id: "strip ''p1'' = ''p1'' \<and> strip ''p2'' = ''p2''"
  by (simp add: strip_def py_isspace_def)

lemma workspace_pages:
  "workspace (JStr ''p1'')
     = Inr (JDict [(''object'', JStr ''list''),
                   (''results'', JList [rich_block ''t1'' ''toggle'' [''What is X?'']])])"
  "workspace (JStr ''p2'')
     = Inr (JDict [(''object'', JStr ''list''),
                   (''results'', JList [rich_block ''h1'' ''heading_1'' [''Topic1''],
                                        rich_block ''t1'' ''toggle'' [''What is X?'']])])"
  by (simp_all add: workspace_def)

lemma fetch_p2:
  "fetch_page_content workspace ''p2'' = Inr (Some ({''Topic1''}, [(''What is X?'', ''X is Y.'')]))"
  by (simp add: fetch_page_content_def workspace_pages analyze_blocks_p2)

lemma extract_p2:
  "extract_page_content workspace (Some ''p2'')
     = Inr [(''status'', FStr ''success''), (''topics'', FTopics {''Topic1''}),
            (''content'', FContent [(''What is X?'', ''X is Y.'')]),
            (''message'', FStr ''Extracted topics and content from page ID: p2'')]"
  by (simp add: extract_page_content_def blank_def strip_id fetch_p2 try_except_def
      unpack_pair_def)

theorem success_needs_topics_and_content_witness:
  "fetch_page_content workspace ''p2'' = Inr (Some ({''Topic1''}, [(''What is X?'', ''X is Y.'')]))
   \<and> {''Topic1''} \<noteq> ({} :: string set)
   \<and> extract_page_content workspace (Some ''p2'')
     = Inr [(''status'', FStr ''success''), (''topics'', FTopics {''Topic1''}),
            (''content'', FContent [(''What is X?'', ''X is Y.'')]),
            (''message'', FStr ''Extracted topics and content from page ID: p2'')]
   \<and> analyze_blocks workspace (JList [rich_block ''t1'' ''toggle'' [''What is X?'']])
     = Inr ({}, [(''What is X?'', ''X is Y.'')])
   \<and> fetch_page_content workspace ''p1'' = Inr None
   \<and> extract_page_content workspace (Some ''p1'')
          = Inr [(''status'', FStr ''error''), (''topics'', FTopics {}),
                 (''content'', FContent []),
                 (''message'', FError ''Content extraction failed: '' TypeError)]"
  using success_needs_topics_and_content [where children = workspace and page_id = "''p2''"
      and topics = "{''Topic1''}" and content = "[(''What is X?'', ''X is Y.'')]"
      and arg = "Some ''p2''"
      and env = "[(''status'', FStr ''success''), (''topics'', FTopics {''Topic1''}),
            (''content'', FContent [(''What is X?'', ''X is Y.'')]),
            (''message'', FStr ''Extracted topics and content from page ID: p2'')]"
      and p = "''p1''"
      and response = "JDict [(''object'', JStr ''list''),
                    (''results'', JList [rich_block ''t1'' ''toggle'' [''What is X?'']])]"
      and blocks = "JList [rich_block ''t1'' ''toggle'' [''What is X?'']]"
      and topics' = "{}" and content' = "[(''What is X?'', ''X is Y.'')]"]
  by (simp add: fetch_p2 extract_p2 analyze_blocks_workspace blank_def strip_id workspace_pages)

section \<open>Properties of the flashcard publisher\<close>

lemma validate_note_eq:
  "validate_note valid_notes note =
     (if well_formed_note note then valid_notes @ [note] else valid_notes)"
  by (auto simp add: validate_note_def well_formed_note_def split: json.splits option.splits)

lemma validation_loop: "foldl validate_note acc ns = acc @ filter well_formed_note ns"
  by (induction ns arbitrary: acc) (simp_all add: validate_note_eq)

lemma invoke_calls: "snd (invoke tr action params calls) = calls @ [request action params]"
  by (simp add: invoke_def Let_def)

text \<open>
  C7: \<^verbatim>\<open>add_notes\<close> keeps exactly the notes that are dicts with deckName, modelName and a
  fields mapping holding Front and Back; the batch call gets the survivors, in order; when
  none survives no call is made and the empty list is returned. Of a well-formed note and
  a note without \<^verbatim>\<open>fields\<close>, only the first is submitted.
\<close>

theorem only_well_formed_notes_submitted:
  "add_notes tr notes calls =
     (if filter well_formed_note notes = [] then (Inr (JList []), calls)
      else invoke tr ''addNotes'' [(''notes'', JList (filter well_formed_note notes))] calls)
   \<and> snd (add_notes tr notes calls) =
     (if filter well_formed_note notes = [] then calls
      else calls @ [request ''addNotes'' [(''notes'', JList (filter well_formed_note notes))]])
   \<and> add_notes tr [basic_note ''Topic1'' ''What is X?'' ''X is Y.'', note_without_fields] calls
       = invoke tr ''addNotes''
           [(''notes'', JList [basic_note ''Topic1'' ''What is X?'' ''X is Y.''])] calls"
proof -
  have main: "add_notes tr ns cs =
     (if filter well_formed_note ns = [] then (Inr (JList []), cs)
      else invoke tr ''addNotes'' [(''notes'', JList (filter well_formed_note ns))] cs)" for ns cs
    by (auto simp add: add_notes_def validation_loop areturn_def Let_def)
  have wf: "well_formed_note (basic_note ''Topic1'' ''What is X?'' ''X is Y.'')"
    "\<not> well_formed_note note_without_fields"
    by (simp_all add: well_formed_note_def basic_note_def note_without_fields_def)
  show ?thesis
    by (simp add: main wf invoke_calls)
qed

lemma atry_total:
  assumes "\<And>e cs. \<exists>v. handler e cs = (Inr v, cs)"
  shows "\<exists>v cs'. atry body any_exception handler calls = (Inr v, cs')"
proof (cases "body calls")
  case (Pair r cs)
  show ?thesis
  proof (cases r)
    case (Inl e)
    with Pair assms [of e cs] show ?thesis
      by (auto simp add: atry_def any_exception_def)
  next
    case (Inr v)
    with Pair show ?thesis by (simp add: atry_def)
  qed
qed

lemma sync_decks_total: "sync_decks tr calls = (Inr (), calls @ [request ''sync'' []])"
proof -
  obtain r where "invoke tr ''sync'' [] calls = (r, calls @ [request ''sync'' []])"
    using invoke_calls [of tr "''sync''" "[]" calls] by (cases "invoke tr ''sync'' [] calls") simp
  then show ?thesis
    by (cases r) (simp_all add: sync_decks_def atry_def abind_def areturn_def any_exception_def)
qed

text \<open>
  C6: whenever deck creation and note submission succeed, \<^verbatim>\<open>post_flashcards\<close> returns the
  status "added" with the result of the submission, whatever the transport answers to the
  sync call; \<^verbatim>\<open>sync_decks\<close> itself never raises.
\<close>

theorem sync_failure_does_not_fail_publish:
  "(create_deck tr page_name calls = (Inr d, calls1)
      \<and> add_notes tr cards calls1 = (Inr result, calls2) \<longrightarrow>
      post_flashcards tr page_name cards calls =
        (Inr [(''status'', FStr ''added''), (''result'', FJson result),
              (''message'',
               FStr (''Added '' @ str_of_nat (length cards) @ '' flashcards to Anki deck ''
                     @ quoted page_name))],
         calls2 @ [request ''sync'' []]))
   \<and> sync_decks tr calls = (Inr (), calls @ [request ''sync'' []])"
  by (simp add: post_flashcards_def atry_def abind_def areturn_def sync_decks_total)

lemma strip_topic: "strip ''Topic1'' = ''Topic1''"
  by (simp add: strip_def py_isspace_def)

theorem sync_failure_does_not_fail_publish_witness:
  "create_deck sync_fails ''Topic1'' []
     = (Inr (JInt 1700000000000), [request ''createDeck'' [(''deck'', JStr ''Topic1'')]])
   \<and> add_notes sync_fails [basic_note ''Topic1'' ''What is X?'' ''X is Y.'']
       [request ''createDeck'' [(''deck'', JStr ''Topic1'')]]
     = (Inr (JList [JInt 12345]),
        [request ''createDeck'' [(''deck'', JStr ''Topic1'')],
         request ''addNotes''
           [(''notes'', JList [basic_note ''Topic1'' ''What is X?'' ''X is Y.''])]])
   \<and> fst (invoke sync_fails ''sync'' [] [])
     = Inl (Exception
         ''Cannot connect to Anki. Please ensure Anki is running with AnkiConnect installed.'')
   \<and> post_flashcards sync_fails ''Topic1'' [basic_note ''Topic1'' ''What is X?'' ''X is Y.''] []
     = (Inr [(''status'', FStr ''added''), (''result'', FJson (JList [JInt 12345])),
             (''message'', FStr (''Added 1 flashcards to Anki deck '' @ quoted ''Topic1''))],
        [request ''createDeck'' [(''deck'', JStr ''Topic1'')],
         request ''addNotes''
           [(''notes'', JList [basic_note ''Topic1'' ''What is X?'' ''X is Y.''])],
         request ''sync'' []])"
proof -
  have deck: "create_deck sync_fails ''Topic1'' []
     = (Inr (JInt 1700000000000), [request ''createDeck'' [(''deck'', JStr ''Topic1'')]])"
    by (simp add: create_deck_def strip_topic atry_def invoke_def Let_def)
       (simp add: request_def sync_fails_def anki_response_def check_response_def py_len_def)
  have add: "add_notes sync_fails [basic_note ''Topic1'' ''What is X?'' ''X is Y.'']
       [request ''createDeck'' [(''deck'', JStr ''Topic1'')]]
     = (Inr (JList [JInt 12345]),
        [request ''createDeck'' [(''deck'', JStr ''Topic1'')],
         request ''addNotes''
           [(''notes'', JList [basic_note ''Topic1'' ''What is X?'' ''X is Y.''])]])"
    by (simp add: add_notes_def validate_note_def basic_note_def invoke_def Let_def)
       (simp add: request_def sync_fails_def anki_response_def check_response_def py_len_def)
  have sync: "fst (invoke sync_fails ''sync'' [] [])
     = Inl (Exception
         ''Cannot connect to Anki. Please ensure Anki is running with AnkiConnect installed.'')"
    by (simp add: invoke_def Let_def request_def sync_fails_def reraise_def)
  from sync_failure_does_not_fail_publish [where tr = sync_fails and page_name = "''Topic1''"
      and calls = "[]" and cards = "[basic_note ''Topic1'' ''What is X?'' ''X is Y.'']"] deck add
  show ?thesis
    by (simp add: sync str_of_nat.simps digit_def)
qed

lemma post_flashcards_total:
  "\<exists>env calls'. post_flashcards tr name cards calls = (Inr env, calls')
      \<and> (map_of env ''status'' = Some (FStr ''added'')
           \<or> map_of env ''status'' = Some (FStr ''error''))
      \<and> map_of env ''message'' \<noteq> None"
proof (cases "create_deck tr name calls")
  case deck: (Pair r1 c1)
  show ?thesis
  proof (cases r1)
    case (Inl e)
    with deck show ?thesis
      by (simp add: post_flashcards_def atry_def abind_def areturn_def any_exception_def)
  next
    case d: (Inr d)
    show ?thesis
    proof (cases "add_notes tr cards c1")
      case add: (Pair r2 c2)
      show ?thesis
      proof (cases r2)
        case (Inl e)
        with deck d add show ?thesis
          by (simp add: post_flashcards_def atry_def abind_def areturn_def any_exception_def)
      next
        case (Inr result)
        with deck d add show ?thesis
          by (simp add: post_flashcards_def atry_def abind_def areturn_def sync_decks_total)
      qed
    qed
  qed
qed

section \<open>Properties of the tools\<close>

lemma search_page_total:
  "\<exists>env. search_page search a = Inr env
      \<and> (map_of env ''status'' = Some (FStr ''success'')
           \<or> map_of env ''status'' = Some (FStr ''error''))"
proof (cases "blank a")
  case True
  then show ?thesis by (simp add: search_page_def)
next
  case False
  show ?thesis
  proof (cases "search_notion_page search (strip (the a))")
    case (Inl e)
    with False show ?thesis
      by (simp add: search_page_def try_except_def any_exception_def Let_def)
  next
    case (Inr page)
    with False show ?thesis
      by (cases page) (simp_all add: search_page_def try_except_def Let_def)
  qed
qed

lemma extract_page_content_total:
  "\<exists>env. extract_page_content children a = Inr env
      \<and> (map_of env ''status'' = Some (FStr ''success'')
           \<or> map_of env ''status'' = Some (FStr ''error''))"
proof (cases "blank a")
  case True
  then show ?thesis by (simp add: extract_page_content_def)
next
  case False
  show ?thesis
  proof (cases "fetch_page_content children (strip (the a))")
    case (Inl e)
    with False show ?thesis
      by (simp add: extract_page_content_def try_except_def any_exception_def Let_def)
  next
    case (Inr r)
    with False show ?thesis
      by (cases r)
         (simp_all add: extract_page_content_def try_except_def any_exception_def
            unpack_pair_def Let_def)
  qed
qed

lemma generate_flashcards_total:
  "\<exists>env calls'. generate_flashcards gpt tr a topics content calls = (Inr env, calls')
      \<and> (map_of env ''status'' = Some (FStr ''created'')
           \<or> map_of env ''status'' = Some (FStr ''failed''))"
proof -
  consider (early) "blank a \<or> content = []" | (run) "\<not> blank a" "content \<noteq> []"
    by blast
  then show ?thesis
  proof cases
    case early
    then show ?thesis
      by (auto simp add: generate_flashcards_def areturn_def failed_def)
  next
    case run
    show ?thesis
    proof (cases "gpt (the a) topics content")
      case (Inl e)
      with run show ?thesis
        by (simp add: generate_flashcards_def atry_def abind_def areturn_def any_exception_def
            failed_def Let_def)
    next
      case cards: (Inr llm_cards)
      show ?thesis
      proof (cases "llm_cards = []")
        case True
        with run cards show ?thesis
          by (simp add: generate_flashcards_def atry_def abind_def areturn_def failed_def Let_def)
      next
        case False
        from post_flashcards_total [of tr "the a" llm_cards calls]
        obtain env c where post: "post_flashcards tr (the a) llm_cards calls = (Inr env, c)"
          and msg: "map_of env ''message'' \<noteq> None"
          by blast
        from msg obtain m where m: "map_of env ''message'' = Some m"
          by auto
        from run cards False post m show ?thesis
          by (simp add: generate_flashcards_def atry_def abind_def areturn_def Let_def)
      qed
    qed
  qed
qed

lemma search_page_raised:
  assumes "\<not> blank (Some name)" and "search_notion_page search (strip name) = Inl e"
  shows "search_page search (Some name)
     = Inr [(''status'', FStr ''error''), (''page_name'', FStr name),
            (''message'', FError ''Search failed: '' e)]"
  using assms by (simp add: search_page_def try_except_def any_exception_def Let_def)

lemma extract_page_content_raised:
  assumes "\<not> blank (Some pid)" and "fetch_page_content children (strip pid) = Inl e"
  shows "extract_page_content children (Some pid)
     = Inr [(''status'', FStr ''error''), (''topics'', FTopics {}), (''content'', FContent []),
            (''message'', FError ''Content extraction failed: '' e)]"
  using assms by (simp add: extract_page_content_def try_except_def any_exception_def Let_def)

lemma generate_flashcards_raised:
  assumes "\<not> blank (Some name)" and "content \<noteq> []" and "gpt name topics content = Inl e"
  shows "generate_flashcards gpt tr (Some name) topics content calls
     = (Inr [(''status'', FStr ''failed''), (''cards'', FCards []),
             (''message'', FError ''Flashcard generation failed: '' e)], calls)"
  using assms
  by (simp add: generate_flashcards_def atry_def abind_def areturn_def any_exception_def
      failed_def Let_def)

lemma post_flashcards_deck_raised:
  assumes "create_deck tr name calls = (Inl e, calls1)"
  shows "post_flashcards tr name cards calls
     = (Inr [(''status'', FStr ''error''), (''result'', FJson (JList [])),
             (''message'', FError ''Failed to add flashcards: '' e)], calls1)"
  using assms
  by (simp add: post_flashcards_def atry_def abind_def areturn_def any_exception_def)

lemma post_flashcards_notes_raised:
  assumes "create_deck tr name calls = (Inr d, calls1)"
    and "add_notes tr cards calls1 = (Inl e, calls2)"
  shows "post_flashcards tr name cards calls
     = (Inr [(''status'', FStr ''error''), (''result'', FJson (JList [])),
             (''message'', FError ''Failed to add flashcards: '' e)], calls2)"
  using assms
  by (simp add: post_flashcards_def atry_def abind_def areturn_def any_exception_def)

lemma generate_flashcards_publish_failed:
  assumes "\<not> blank (Some name)" and "content \<noteq> []"
    and "gpt name topics content = Inr cards" and "cards \<noteq> []"
    and "post_flashcards tr name cards calls
           = (Inr [(''status'', FStr ''error''), (''result'', FJson (JList [])),
                   (''message'', FError ''Failed to add flashcards: '' e)], calls')"
  shows "generate_flashcards gpt tr (Some name) topics content calls
     = (Inr [(''status'', FStr ''failed''), (''cards'', FCards cards),
             (''message'',
              FWrap ''Generated cards but failed to add to Anki: ''
                (FError ''Failed to add flashcards: '' e))], calls')"
  using assms
  by (simp add: generate_flashcards_def atry_def abind_def areturn_def Let_def)

text \<open>
  C8 (as stated): every tool entry point, generate_flashcards among them, would report an
  empty string argument with the status "error". For an empty page name
  \<^verbatim>\<open>generate_flashcards\<close> returns the status "failed".
\<close>

theorem empty_page_name_status_counterexample:
  "generate_flashcards one_card sync_fails (Some []) [''Topic1''] [(''What is X?'', ''X is Y.'')] []
     = (Inr [(''status'', FStr ''failed''), (''cards'', FCards []),
             (''message'', FStr ''Page name cannot be empty'')], [])
   \<and> FStr ''failed'' \<noteq> FStr ''error''"
  by (simp add: generate_flashcards_def blank_def areturn_def failed_def)

text \<open>
  C8 (amended): an argument that is missing, empty or blank is answered with an envelope at
  once, with the status "error" by \<^verbatim>\<open>search_page\<close> and \<^verbatim>\<open>extract_page_content\<close> and
  with the status "failed" by \<^verbatim>\<open>generate_flashcards\<close>, and no call is made. For every
  argument and every behaviour of the components (Notion search, block listing,
  synthesizer, AnkiConnect transport), each tool returns an envelope, of status success or
  error for the first two and created or failed for the third: no exception of a component
  leaves a tool. An exception raised by the page search or by the content fetch becomes
  the envelope of status "error" that carries it; an exception raised by the synthesizer,
  by the deck creation or by the note submission becomes the envelope of status "failed"
  that carries it.
\<close>

theorem tools_return_envelopes:
  "(blank a \<longrightarrow>
      search_page search a
        = Inr [(''status'', FStr ''error''), (''message'', FStr ''Page name cannot be empty.'')]
      \<and> extract_page_content children a
        = Inr [(''status'', FStr ''error''), (''topics'', FTopics {}), (''content'', FContent []),
               (''message'', FStr ''Page ID cannot be empty.'')]
      \<and> generate_flashcards gpt tr a topics content calls
        = (Inr [(''status'', FStr ''failed''), (''cards'', FCards []),
                (''message'', FStr ''Page name cannot be empty'')], calls))
   \<and> (\<exists>env. search_page search b = Inr env
        \<and> (map_of env ''status'' = Some (FStr ''success'')
             \<or> map_of env ''status'' = Some (FStr ''error'')))
   \<and> (\<exists>env. extract_page_content children b = Inr env
        \<and> (map_of env ''status'' = Some (FStr ''success'')
             \<or> map_of env ''status'' = Some (FStr ''error'')))
   \<and> (\<exists>env calls'. generate_flashcards gpt tr b topics content calls = (Inr env, calls')
        \<and> (map_of env ''status'' = Some (FStr ''created'')
             \<or> map_of env ''status'' = Some (FStr ''failed'')))
   \<and> (\<not> blank (Some name) \<and> search_notion_page search (strip name) = Inl err_search \<longrightarrow>
        search_page search (Some name)
          = Inr [(''status'', FStr ''error''), (''page_name'', FStr name),
                 (''message'', FError ''Search failed: '' err_search)])
   \<and> (\<not> blank (Some pid) \<and> fetch_page_content children (strip pid) = Inl err_fetch \<longrightarrow>
        extract_page_content children (Some pid)
          = Inr [(''status'', FStr ''error''), (''topics'', FTopics {}),
                 (''content'', FContent []),
                 (''message'', FError ''Content extraction failed: '' err_fetch)])
   \<and> (\<not> blank (Some deck) \<and> content \<noteq> [] \<and> gpt deck topics content = Inl err_gpt \<longrightarrow>
        generate_flashcards gpt tr (Some deck) topics content calls
          = (Inr [(''status'', FStr ''failed''), (''cards'', FCards []),
                  (''message'', FError ''Flashcard generation failed: '' err_gpt)], calls))
   \<and> (\<not> blank (Some deck) \<and> content \<noteq> [] \<and> gpt deck topics content = Inr cards
        \<and> cards \<noteq> [] \<and> create_deck tr deck calls = (Inl err_deck, after_deck) \<longrightarrow>
        generate_flashcards gpt tr (Some deck) topics content calls
          = (Inr [(''status'', FStr ''failed''), (''cards'', FCards cards),
                  (''message'',
                   FWrap ''Generated cards but failed to add to Anki: ''
                     (FError ''Failed to add flashcards: '' err_deck))], after_deck))
   \<and> (\<not> blank (Some deck) \<and> content \<noteq> [] \<and> gpt deck topics content = Inr cards
        \<and> cards \<noteq> [] \<and> create_deck tr deck calls = (Inr d, after_deck)
        \<and> add_notes tr cards after_deck = (Inl err_notes, after_notes) \<longrightarrow>
        generate_flashcards gpt tr (Some deck) topics content calls
          = (Inr [(''status'', FStr ''failed''), (''cards'', FCards cards),
                  (''message'',
                   FWrap ''Generated cards but failed to add to Anki: ''
                     (FError ''Failed to add flashcards: '' err_notes))], after_notes))"
proof (intro conjI impI)
  assume "blank a"
  then show "search_page search a
        = Inr [(''status'', FStr ''error''), (''message'', FStr ''Page name cannot be empty.'')]"
    and "extract_page_content children a
        = Inr [(''status'', FStr ''error''), (''topics'', FTopics {}), (''content'', FContent []),
               (''message'', FStr ''Page ID cannot be empty.'')]"
    and "generate_flashcards gpt tr a topics content calls
        = (Inr [(''status'', FStr ''failed''), (''cards'', FCards []),
                (''message'', FStr ''Page name cannot be empty'')], calls)"
    by (simp_all add: search_page_def extract_page_content_def generate_flashcards_def
        areturn_def failed_def)
next
  show "\<exists>env. search_page search b = Inr env
        \<and> (map_of env ''status'' = Some (FStr ''success'')
             \<or> map_of env ''status'' = Some (FStr ''error''))"
    by (rule search_page_total)
next
  show "\<exists>env. extract_page_content children b = Inr env
        \<and> (map_of env ''status'' = Some (FStr ''success'')
             \<or> map_of env ''status'' = Some (FStr ''error''))"
    by (rule extract_page_content_total)
next
  show "\<exists>env calls'. generate_flashcards gpt tr b topics content calls = (Inr env, calls')
        \<and> (map_of env ''status'' = Some (FStr ''created'')
             \<or> map_of env ''status'' = Some (FStr ''failed''))"
    by (rule generate_flashcards_total)
next
  assume "\<not> blank (Some name) \<and> search_notion_page search (strip name) = Inl err_search"
  then show "search_page search (Some name)
          = Inr [(''status'', FStr ''error''), (''page_name'', FStr name),
                 (''message'', FError ''Search failed: '' err_search)]"
    by (simp add: search_page_raised)
next
  assume "\<not> blank (Some pid) \<and> fetch_page_content children (strip pid) = Inl err_fetch"
  then show "extract_page_content children (Some pid)
          = Inr [(''status'', FStr ''error''), (''topics'', FTopics {}),
                 (''content'', FContent []),
                 (''message'', FError ''Content extraction failed: '' err_fetch)]"
    by (simp add: extract_page_content_raised)
next
  assume "\<not> blank (Some deck) \<and> content \<noteq> [] \<and> gpt deck topics content = Inl err_gpt"
  then show "generate_flashcards gpt tr (Some deck) topics content calls
          = (Inr [(''status'', FStr ''failed''), (''cards'', FCards []),
                  (''message'', FError ''Flashcard generation failed: '' err_gpt)], calls)"
    by (simp add: generate_flashcards_raised)
next
  assume a: "\<not> blank (Some deck) \<and> content \<noteq> [] \<and> gpt deck topics content = Inr cards
        \<and> cards \<noteq> [] \<and> create_deck tr deck calls = (Inl err_deck, after_deck)"
  then have "post_flashcards tr deck cards calls
     = (Inr [(''status'', FStr ''error''), (''result'', FJson (JList [])),
             (''message'', FError ''Failed to add flashcards: '' err_deck)], after_deck)"
    by (simp add: post_flashcards_deck_raised)
  with a show "generate_flashcards gpt tr (Some deck) topics content calls
          = (Inr [(''status'', FStr ''failed''), (''cards'', FCards cards),
                  (''message'',
                   FWrap ''Generated cards but failed to add to Anki: ''
                     (FError ''Failed to add flashcards: '' err_deck))], after_deck)"
    by (simp add: generate_flashcards_publish_failed)
next
  assume a: "\<not> blank (Some deck) \<and> content \<noteq> [] \<and> gpt deck topics content = Inr cards
        \<and> cards \<noteq> [] \<and> create_deck tr deck calls = (Inr d, after_deck)
        \<and> add_notes tr cards after_deck = (Inl err_notes, after_notes)"
  then have "post_flashcards tr deck cards calls
     = (Inr [(''status'', FStr ''error''), (''result'', FJson (JList [])),
             (''message'', FError ''Failed to add flashcards: '' err_notes)], after_notes)"
    using post_flashcards_notes_raised [of tr deck calls d after_deck cards err_notes after_notes] by simp
  with a show "generate_flashcards gpt tr (Some deck) topics content calls
          = (Inr [(''status'', FStr ''failed''), (''cards'', FCards cards),
                  (''message'',
                   FWrap ''Generated cards but failed to add to Anki: ''
                     (FError ''Failed to add flashcards: '' err_notes))], after_notes)"
    by (simp add: generate_flashcards_publish_failed)
qed


lemma strip_ids: "strip ''Notes'' = ''Notes'' \<and> strip ''zz'' = ''zz'' \<and> strip ''Topic1'' = ''Topic1''"
  by (simp add: strip_def py_isspace_def)

theorem tools_return_envelopes_witness:
  "blank None \<and> blank (Some [])
   \<and> search_page (search_results [untitled_page]) None
       = Inr [(''status'', FStr ''error''), (''message'', FStr ''Page name cannot be empty.'')]
   \<and> extract_page_content workspace (Some [])
       = Inr [(''status'', FStr ''error''), (''topics'', FTopics {}), (''content'', FContent []),
              (''message'', FStr ''Page ID cannot be empty.'')]
   \<and> generate_flashcards one_card sync_fails (Some []) [''Topic1'']
         [(''What is X?'', ''X is Y.'')] []
       = (Inr [(''status'', FStr ''failed''), (''cards'', FCards []),
               (''message'', FStr ''Page name cannot be empty'')], [])
   \<and> search_notion_page (search_results [untitled_page]) (strip ''Notes'') = Inl IndexError
   \<and> search_page (search_results [untitled_page]) (Some ''Notes'')
       = Inr [(''status'', FStr ''error''), (''page_name'', FStr ''Notes''),
              (''message'', FError ''Search failed: '' IndexError)]
   \<and> fetch_page_content workspace (strip ''zz'') = Inl (ServiceError ''object_not_found'')
   \<and> extract_page_content workspace (Some ''zz'')
       = Inr [(''status'', FStr ''error''), (''topics'', FTopics {}), (''content'', FContent []),
              (''message'',
               FError ''Content extraction failed: '' (ServiceError ''object_not_found''))]
   \<and> synthesizer_down ''Topic1'' [''Topic1''] [(''What is X?'', ''X is Y.'')]
       = Inl (ServiceError ''completion service unavailable'')
   \<and> generate_flashcards synthesizer_down sync_fails (Some ''Topic1'') [''Topic1'']
         [(''What is X?'', ''X is Y.'')] []
       = (Inr [(''status'', FStr ''failed''), (''cards'', FCards []),
               (''message'',
                FError ''Flashcard generation failed: ''
                  (ServiceError ''completion service unavailable''))], [])
   \<and> create_deck anki_down ''Topic1'' []
       = (Inl (Exception
            ''Cannot connect to Anki. Please ensure Anki is running with AnkiConnect installed.''),
          [request ''createDeck'' [(''deck'', JStr ''Topic1'')]])
   \<and> generate_flashcards one_card anki_down (Some ''Topic1'') [''Topic1'']
         [(''What is X?'', ''X is Y.'')] []
       = (Inr [(''status'', FStr ''failed''),
               (''cards'', FCards [basic_note ''Topic1'' ''What is X?'' ''X is Y.'']),
               (''message'',
                FWrap ''Generated cards but failed to add to Anki: ''
                  (FError ''Failed to add flashcards: ''
                     (Exception
                        ''Cannot connect to Anki. Please ensure Anki is running with AnkiConnect installed.'')))],
          [request ''createDeck'' [(''deck'', JStr ''Topic1'')]])
   \<and> add_notes notes_rejected [basic_note ''Topic1'' ''What is X?'' ''X is Y.'']
         [request ''createDeck'' [(''deck'', JStr ''Topic1'')]]
       = (Inl (Exception ''AnkiConnect error''),
          [request ''createDeck'' [(''deck'', JStr ''Topic1'')],
           request ''addNotes''
             [(''notes'', JList [basic_note ''Topic1'' ''What is X?'' ''X is Y.''])]])
   \<and> generate_flashcards one_card notes_rejected (Some ''Topic1'') [''Topic1'']
         [(''What is X?'', ''X is Y.'')] []
       = (Inr [(''status'', FStr ''failed''),
               (''cards'', FCards [basic_note ''Topic1'' ''What is X?'' ''X is Y.'']),
               (''message'',
                FWrap ''Generated cards but failed to add to Anki: ''
                  (FError ''Failed to add flashcards: '' (Exception ''AnkiConnect error'')))],
          [request ''createDeck'' [(''deck'', JStr ''Topic1'')],
           request ''addNotes''
             [(''notes'', JList [basic_note ''Topic1'' ''What is X?'' ''X is Y.''])]])"
proof -
  have search: "search_notion_page (search_results [untitled_page]) (strip ''Notes'')
       = Inl IndexError"
    by (simp add: strip_ids search_defs page_fixtures)
  have fetch: "fetch_page_content workspace (strip ''zz'')
       = Inl (ServiceError ''object_not_found'')"
    by (simp add: strip_ids fetch_page_content_def workspace_def)
  have gpt: "synthesizer_down ''Topic1'' [''Topic1''] [(''What is X?'', ''X is Y.'')]
       = Inl (ServiceError ''completion service unavailable'')"
    by (simp add: synthesizer_down_def)
  have cards: "one_card ''Topic1'' [''Topic1''] [(''What is X?'', ''X is Y.'')]
       = Inr [basic_note ''Topic1'' ''What is X?'' ''X is Y.'']"
    by (simp add: one_card_def)
  have down: "create_deck anki_down ''Topic1'' []
       = (Inl (Exception
            ''Cannot connect to Anki. Please ensure Anki is running with AnkiConnect installed.''),
          [request ''createDeck'' [(''deck'', JStr ''Topic1'')]])"
    by (simp add: create_deck_def strip_ids atry_def araise_def any_exception_def invoke_def
        Let_def anki_down_def reraise_def)
  have deck: "create_deck notes_rejected ''Topic1'' []
       = (Inr (JInt 1700000000000), [request ''createDeck'' [(''deck'', JStr ''Topic1'')]])"
    by (simp add: create_deck_def strip_ids atry_def invoke_def Let_def)
       (simp add: request_def notes_rejected_def anki_response_def check_response_def py_len_def)
  have rejected: "add_notes notes_rejected [basic_note ''Topic1'' ''What is X?'' ''X is Y.'']
         [request ''createDeck'' [(''deck'', JStr ''Topic1'')]]
       = (Inl (Exception ''AnkiConnect error''),
          [request ''createDeck'' [(''deck'', JStr ''Topic1'')],
           request ''addNotes''
             [(''notes'', JList [basic_note ''Topic1'' ''What is X?'' ''X is Y.''])]])"
    by (simp add: add_notes_def validate_note_def basic_note_def invoke_def Let_def)
       (simp add: request_def notes_rejected_def check_response_def py_len_def reraise_def)
  have nonblank: "\<not> blank (Some ''Notes'')" "\<not> blank (Some ''zz'')" "\<not> blank (Some ''Topic1'')"
    by (simp_all add: blank_def strip_ids)
  from tools_return_envelopes [where a = None and search = "search_results [untitled_page]"
      and name = "''Notes''" and err_search = IndexError]
    tools_return_envelopes [where a = "Some []" and children = workspace and gpt = one_card
      and tr = sync_fails and topics = "[''Topic1'']"
      and content = "[(''What is X?'', ''X is Y.'')]" and calls = "[]"
      and pid = "''zz''" and err_fetch = "ServiceError ''object_not_found''"]
    tools_return_envelopes [where gpt = synthesizer_down and tr = sync_fails and deck = "''Topic1''"
      and topics = "[''Topic1'']" and content = "[(''What is X?'', ''X is Y.'')]"
      and calls = "[]" and err_gpt = "ServiceError ''completion service unavailable''"]
    tools_return_envelopes [where gpt = one_card and tr = anki_down and deck = "''Topic1''"
      and topics = "[''Topic1'']" and content = "[(''What is X?'', ''X is Y.'')]"
      and calls = "[]" and cards = "[basic_note ''Topic1'' ''What is X?'' ''X is Y.'']"
      and err_deck = "Exception
            ''Cannot connect to Anki. Please ensure Anki is running with AnkiConnect installed.''"
      and after_deck = "[request ''createDeck'' [(''deck'', JStr ''Topic1'')]]"]
    tools_return_envelopes [where gpt = one_card and tr = notes_rejected and deck = "''Topic1''"
      and topics = "[''Topic1'']" and content = "[(''What is X?'', ''X is Y.'')]"
      and calls = "[]" and cards = "[basic_note ''Topic1'' ''What is X?'' ''X is Y.'']"
      and d = "JInt 1700000000000"
      and after_deck = "[request ''createDeck'' [(''deck'', JStr ''Topic1'')]]"
      and err_notes = "Exception ''AnkiConnect error''"
      and after_notes = "[request ''createDeck'' [(''deck'', JStr ''Topic1'')],
           request ''addNotes''
             [(''notes'', JList [basic_note ''Topic1'' ''What is X?'' ''X is Y.''])]]"]
    search fetch gpt cards down deck rejected nonblank
  show ?thesis
    by (simp add: blank_def)
qed

end
